theory Spec2Isabelle
  imports Complex_Main "HOL-Library.Log_Nat" "HOL-Library.Multiset"
begin

section \<open>Python values\<close>

text \<open>
  A Python \<open>str\<close> is a sequence of Unicode code points, so a string is a list of
  naturals; \<open>ascii\<close> turns an ASCII literal into that form.
\<close>

type_synonym pystr = "nat list"

abbreviation ascii :: "string \<Rightarrow> pystr" where
  "ascii s \<equiv> map of_char s"

text \<open>
  The values \<open>json.load\<close> produces. A finite float is the rational it denotes;
  the decoder also accepts \<open>Infinity\<close>, \<open>-Infinity\<close> and \<open>NaN\<close>. A mapping is
  the list of its items in insertion order; \<open>map_of\<close> looks a key up.
\<close>

datatype pyfloat = Finite rat | PosInf | NegInf | NaN

datatype json =
    JNull
  | JBool bool
  | JInt int
  | JFloat pyfloat
  | JStr pystr
  | JArr "json list"
  | JObj "(pystr \<times> json) list"

text \<open>The exceptions the program can meet.\<close>

datatype error =
    FileNotFoundError
  | JSONDecodeError
  | KeyError
  | TypeError
  | ValueError
  | OverflowError
  | RecursionError
  | OSError

text \<open>Truth value of an object, as \<open>if x\<close> and \<open>not x\<close> test it.\<close>

fun truthy :: "json \<Rightarrow> bool" where
  "truthy JNull = False"
| "truthy (JBool b) = b"
| "truthy (JInt n) = (n \<noteq> 0)"
| "truthy (JFloat f) = (f \<noteq> Finite 0)"
| "truthy (JStr s) = (s \<noteq> [])"
| "truthy (JArr xs) = (xs \<noteq> [])"
| "truthy (JObj kvs) = (kvs \<noteq> [])"

text \<open>\<open>k in s\<close> for two strings: \<open>k\<close> occurs in \<open>s\<close> as a contiguous run.\<close>

fun is_substring :: "pystr \<Rightarrow> pystr \<Rightarrow> bool" where
  "is_substring k [] = (k = [])"
| "is_substring k (c # s) = (take (length k) (c # s) = k \<or> is_substring k s)"

text \<open>
  \<open>k in obj\<close> for a string \<open>k\<close>: key membership in a mapping, element membership in a
  list, substring test in a string; any other object is not a container.
\<close>

fun py_contains :: "pystr \<Rightarrow> json \<Rightarrow> error + bool" where
  "py_contains k (JObj kvs) = Inr (map_of kvs k \<noteq> None)"
| "py_contains k (JArr xs) = Inr (JStr k \<in> set xs)"
| "py_contains k (JStr s) = Inr (is_substring k s)"
| "py_contains k _ = Inl TypeError"

text \<open>
  \<open>obj[k]\<close> for a string \<open>k\<close>: a mapping without the key raises KeyError, lists and
  strings take integer indices only, other objects are not subscriptable.
\<close>

fun py_getitem :: "json \<Rightarrow> pystr \<Rightarrow> error + json" where
  "py_getitem (JObj kvs) k = (case map_of kvs k of None \<Rightarrow> Inl KeyError | Some v \<Rightarrow> Inr v)"
| "py_getitem _ k = Inl TypeError"

text \<open>
  \<open>for x in obj\<close>: the elements of a list, the keys of a mapping, the one-character
  strings of a string.
\<close>

fun py_iter :: "json \<Rightarrow> error + json list" where
  "py_iter (JArr xs) = Inr xs"
| "py_iter (JObj kvs) = Inr (map (\<lambda>kv. JStr (fst kv)) kvs)"
| "py_iter (JStr s) = Inr (map (\<lambda>c. JStr [c]) s)"
| "py_iter _ = Inl TypeError"

text \<open>\<open>sep.join(xs)\<close>: every element has to be a string.\<close>

fun py_join :: "pystr \<Rightarrow> json list \<Rightarrow> error + pystr" where
  "py_join sep [] = Inr []"
| "py_join sep [JStr s] = Inr s"
| "py_join sep (JStr s # xs) =
     (case py_join sep xs of Inl e \<Rightarrow> Inl e | Inr r \<Rightarrow> Inr (s @ sep @ r))"
| "py_join sep (_ # xs) = Inl TypeError"

text \<open>\<open>str.isspace\<close> on one code point, and \<open>str.strip()\<close>.\<close>

definition is_space :: "nat \<Rightarrow> bool" where
  "is_space c \<longleftrightarrow>
     (9 \<le> c \<and> c \<le> 13) \<or> (28 \<le> c \<and> c \<le> 32) \<or> c = 133 \<or> c = 160 \<or> c = 5760 \<or>
     (8192 \<le> c \<and> c \<le> 8202) \<or> c = 8232 \<or> c = 8233 \<or> c = 8239 \<or> c = 8287 \<or>
     c = 12288"

definition strip :: "pystr \<Rightarrow> pystr" where
  "strip s = rev (dropWhile is_space (rev (dropWhile is_space s)))"

text \<open>Decimal digits of a natural, and the format specs \<open>02d\<close> and \<open>03d\<close>.\<close>

fun digits :: "nat \<Rightarrow> pystr" where
  "digits n = (if n < 10 then [48 + n] else digits (n div 10) @ [48 + n mod 10])"

declare digits.simps [simp del]

definition zero_pad :: "nat \<Rightarrow> pystr \<Rightarrow> pystr" where
  "zero_pad w s = replicate (w - length s) 48 @ s"

definition format_d :: "nat \<Rightarrow> int \<Rightarrow> pystr" where
  "format_d w n =
     (if n < 0 then 45 # zero_pad (w - 1) (digits (nat (- n)))
      else zero_pad w (digits (nat n)))"

section \<open>Binary64 arithmetic\<close>

text \<open>
  Python's \<open>float\<close> is IEEE 754 binary64. A finite float is modelled by its exact
  rational value, and each operation that rounds by \<open>round_double\<close>: round to
  nearest, ties to even, 53 significant bits, exponent no smaller than that of the
  subnormals.
\<close>

definition pow2 :: "int \<Rightarrow> rat" where
  "pow2 e = (if 0 \<le> e then 2 ^ nat e else 1 / 2 ^ nat (- e))"

text \<open>\<open>ilog2 a\<close> is the \<open>d\<close> with \<open>2^d \<le> a < 2^(d+1)\<close>, for \<open>a > 0\<close>.\<close>

definition ilog2 :: "rat \<Rightarrow> int" where
  "ilog2 a =
     (let (p, q) = quotient_of a; d = bitlen p - bitlen q
      in if pow2 d \<le> a then d else d - 1)"

definition round_half_even :: "rat \<Rightarrow> int" where
  "round_half_even x =
     (let m = \<lfloor>x\<rfloor>; r = x - of_int m
      in if r > 1 / 2 \<or> (r = 1 / 2 \<and> odd m) then m + 1 else m)"

definition round_double :: "rat \<Rightarrow> rat" where
  "round_double q =
     (if q = 0 then 0
      else let a = \<bar>q\<bar>; e = max (ilog2 a - 52) (- 1074)
           in sgn q * of_int (round_half_even (a / pow2 e)) * pow2 e)"

text \<open>\<open>int(x)\<close> of a float truncates towards zero.\<close>

definition py_int :: "rat \<Rightarrow> int" where
  "py_int x = (if 0 \<le> x then \<lfloor>x\<rfloor> else \<lceil>x\<rceil>)"

text \<open>C's \<open>fmod\<close>: exact, with the sign of the dividend.\<close>

definition c_fmod :: "rat \<Rightarrow> rat \<Rightarrow> rat" where
  "c_fmod x y = x - y * of_int (py_int (x / y))"

text \<open>
  \<open>x % y\<close> and \<open>x // y\<close> on floats, as the interpreter computes them from \<open>fmod\<close>;
  the divisors in this program are the constants 3600, 60 and 1.
\<close>

definition float_rem :: "rat \<Rightarrow> rat \<Rightarrow> rat" where
  "float_rem x y =
     (let m = c_fmod x y
      in if m \<noteq> 0 \<and> ((y < 0) \<noteq> (m < 0)) then round_double (m + y) else m)"

definition float_floor_div :: "rat \<Rightarrow> rat \<Rightarrow> rat" where
  "float_floor_div x y =
     (let m = c_fmod x y;
          d0 = round_double (round_double (x - m) / y);
          d = (if m \<noteq> 0 \<and> ((y < 0) \<noteq> (m < 0)) then round_double (d0 - 1) else d0)
      in if d = 0 then 0
         else let f = of_int \<lfloor>d\<rfloor>
              in if d - f > 1 / 2 then round_double (f + 1) else f)"

text \<open>
  \<open>time_microseconds / 1000000\<close>. An int (or bool) divided by an int gives the
  correctly rounded quotient and raises OverflowError when that is out of range; a
  float is divided in binary64. A float that is not finite stays so, and the first
  \<open>int(...)\<close> applied to what follows from it raises ValueError. Any other object has
  no division.
\<close>

fun true_divide_1000000 :: "json \<Rightarrow> error + rat" where
  "true_divide_1000000 (JInt n) =
     (let r = round_double (of_int n / 1000000)
      in if \<bar>r\<bar> \<ge> 2 ^ 1024 then Inl OverflowError else Inr r)"
| "true_divide_1000000 (JBool b) = Inr (round_double ((if b then 1 else 0) / 1000000))"
| "true_divide_1000000 (JFloat (Finite x)) = Inr (round_double (x / 1000000))"
| "true_divide_1000000 (JFloat _) = Inl ValueError"
| "true_divide_1000000 _ = Inl TypeError"

section \<open>The program\<close>

subsection \<open>\<open>create_ai_prompt\<close>\<close>

text \<open>The instruction block, a Russian text, as its code points.\<close>

definition base_prompt :: pystr where
  "base_prompt =
    [1053, 1091, 1078, 1085, 1086, 32, 1087, 1077, 1088, 1077, 1074, 1077, 1089, 1090,
     1080, 32, 1089, 1091, 1073, 1090, 1080, 1090, 1088, 1099, 32, 1085, 1072, 32, 1072,
     1085, 1075, 1083, 1080, 1081, 1089, 1082, 1080, 1081, 32, 1103, 1079, 1099, 1082,
     32, 10, 49, 32, 1057, 1086, 1093, 1088, 1072, 1085, 1103, 1090, 1100, 32, 1090,
     1086, 1095, 1085, 1086, 1077, 32, 1082, 1086, 1083, 1080, 1095, 1077, 1089, 1090,
     1074, 1086, 32, 1089, 1090, 1088, 1086, 1082, 32, 1080, 32, 1086, 1088, 1080, 1075,
     1080, 1085, 1072, 1083, 1100, 1085, 1099, 1077, 32, 1074, 1088, 1077, 1084, 1077,
     1085, 1085, 1099, 1077, 32, 1084, 1077, 1090, 1082, 1080, 32, 10, 50, 32, 1048,
     1089, 1087, 1086, 1083, 1100, 1079, 1086, 1074, 1072, 1090, 1100, 32, 1080, 1085,
     1089, 1090, 1088, 1091, 1082, 1090, 1080, 1074, 1085, 1099, 1081, 44, 32, 1088,
     1072, 1079, 1075, 1086, 1074, 1086, 1088, 1085, 1099, 1081, 32, 1089, 1090, 1080,
     1083, 1100, 32, 1089, 32, 1077, 1089, 1090, 1077, 1089, 1090, 1074, 1077, 1085,
     1085, 1099, 1084, 1080, 32, 1072, 1085, 1075, 1083, 1080, 1081, 1089, 1082, 1080,
     1084, 1080, 32, 1082, 1086, 1085, 1089, 1090, 1088, 1091, 1082, 1094, 1080, 1103,
     1084, 1080, 32, 10, 51, 32, 1057, 1090, 1088, 1086, 1075, 1086, 32, 1087, 1088,
     1080, 1076, 1077, 1088, 1078, 1080, 1074, 1072, 1090, 1100, 1089, 1103, 32, 1090,
     1077, 1088, 1084, 1080, 1085, 1086, 1083, 1086, 1075, 1080, 1080, 10, 10, 1042, 32,
     1080, 1090, 1086, 1075, 1077, 32, 1076, 1086, 1083, 1078, 1077, 1085, 32, 1087,
     1086, 1083, 1091, 1095, 1080, 1090, 1100, 1089, 1103, 32, 1090, 1077, 1082, 1089,
     1090, 32, 1074, 32, 1090, 1072, 1082, 1086, 1084, 32, 1078, 1077, 32, 1092, 1086,
     1088, 1084, 1072, 1090, 1077, 32, 1082, 1072, 1082, 32, 1080, 32, 1073, 1099, 1083,
     10, 10]"

definition create_ai_prompt :: "pystr \<Rightarrow> pystr" where
  "create_ai_prompt srt_content = base_prompt @ srt_content"

subsection \<open>\<open>parse_time_microseconds\<close>\<close>

definition parse_time_microseconds :: "json \<Rightarrow> error + pystr" where
  "parse_time_microseconds time_microseconds =
     (case true_divide_1000000 time_microseconds of
        Inl e \<Rightarrow> Inl e
      | Inr time_seconds \<Rightarrow>
          let hours = py_int (float_floor_div time_seconds 3600);
              minutes = py_int (float_floor_div (float_rem time_seconds 3600) 60);
              seconds = py_int (float_rem time_seconds 60);
              milliseconds = py_int (round_double (float_rem time_seconds 1 * 1000))
          in Inr (format_d 2 hours @ ascii '':'' @ format_d 2 minutes @ ascii '':'' @
                  format_d 2 seconds @ ascii '','' @ format_d 3 milliseconds))"

subsection \<open>\<open>extract_subtitle_text\<close>\<close>

text \<open>
  \<open>json.loads\<close> is a parameter \<open>loads\<close>: the decoded value of a text, or the exception
  the decoder raises on it. That is JSONDecodeError for a text that is not JSON; the
  decoder also raises ValueError for an integer literal of more digits than the
  interpreter converts, and RecursionError for a text nested too deep. An argument that
  is not a string is a TypeError.
\<close>

fun py_loads :: "(pystr \<Rightarrow> error + json) \<Rightarrow> json \<Rightarrow> error + json" where
  "py_loads loads (JStr s) = loads s"
| "py_loads loads _ = Inl TypeError"

definition key_sentence_list :: pystr where
  "key_sentence_list = ascii ''sentence_list''"

definition key_text :: pystr where
  "key_text = ascii ''text''"

text \<open>The loop over the sentence list; \<open>sentences\<close> is the list built so far.\<close>

fun collect_sentences :: "json list \<Rightarrow> json list \<Rightarrow> error + json list" where
  "collect_sentences [] sentences = Inr sentences"
| "collect_sentences (sentence # rest) sentences =
     (case py_contains key_text sentence of
        Inl e \<Rightarrow> Inl e
      | Inr has \<Rightarrow>
          if has then
            (case py_getitem sentence key_text of
               Inl e \<Rightarrow> Inl e
             | Inr t \<Rightarrow> collect_sentences rest (sentences @ [t]))
          else collect_sentences rest sentences)"

text \<open>The body of the \<open>try\<close> statement.\<close>

definition extract_try :: "(pystr \<Rightarrow> error + json) \<Rightarrow> json \<Rightarrow> error + pystr" where
  "extract_try loads subtitle_cache_info =
     (case py_loads loads subtitle_cache_info of
        Inl e \<Rightarrow> Inl e
      | Inr cache_data \<Rightarrow>
          (case py_contains key_sentence_list cache_data of
             Inl e \<Rightarrow> Inl e
           | Inr has \<Rightarrow>
               if \<not> has then Inr []
               else
                 (case py_getitem cache_data key_sentence_list of
                    Inl e \<Rightarrow> Inl e
                  | Inr sentence_list \<Rightarrow>
                      if \<not> truthy sentence_list then Inr []
                      else
                        (case py_iter sentence_list of
                           Inl e \<Rightarrow> Inl e
                         | Inr items \<Rightarrow>
                             (case collect_sentences items [] of
                                Inl e \<Rightarrow> Inl e
                              | Inr sentences \<Rightarrow> py_join (ascii '' '') sentences)))))"

text \<open>
  The function: the guard on the argument, then the \<open>try\<close> body under its handler for
  JSONDecodeError, KeyError and TypeError. \<open>Inl\<close> is an exception that leaves the
  function.
\<close>

definition extract_subtitle_text :: "(pystr \<Rightarrow> error + json) \<Rightarrow> json \<Rightarrow> error + pystr" where
  "extract_subtitle_text loads subtitle_cache_info =
     (if \<not> truthy subtitle_cache_info \<or> subtitle_cache_info = JStr [] then Inr []
      else
        (case extract_try loads subtitle_cache_info of
           Inl e \<Rightarrow>
             if e = JSONDecodeError \<or> e = KeyError \<or> e = TypeError then Inr [] else Inl e
         | Inr s \<Rightarrow> Inr s))"

subsection \<open>\<open>convert_draft_info_to_srt\<close>\<close>

definition key_fragments :: pystr where
  "key_fragments = ascii ''subtitle_fragment_info_list''"

definition key_cache :: pystr where
  "key_cache = ascii ''subtitle_cache_info''"

definition key_start :: pystr where
  "key_start = ascii ''start_time''"

definition key_end :: pystr where
  "key_end = ascii ''end_time''"

text \<open>
  The nested function \<open>find_subtitle_fragments\<close> with its two loops. It returns a
  Python object, and \<open>None\<close> (here \<open>JNull\<close>) when it falls through.
\<close>

fun find_subtitle_fragments :: "json \<Rightarrow> json"
  and find_in_values :: "(pystr \<times> json) list \<Rightarrow> json"
  and find_in_items :: "json list \<Rightarrow> json" where
  "find_subtitle_fragments (JObj kvs) =
     (case map_of kvs key_fragments of
        Some v \<Rightarrow> v
      | None \<Rightarrow> find_in_values kvs)"
| "find_subtitle_fragments (JArr xs) = find_in_items xs"
| "find_subtitle_fragments _ = JNull"
| "find_in_values [] = JNull"
| "find_in_values (kv # kvs) =
     (let result = find_subtitle_fragments (snd kv)
      in if result \<noteq> JNull then result else find_in_values kvs)"
| "find_in_items [] = JNull"
| "find_in_items (x # xs) =
     (let result = find_subtitle_fragments x
      in if result \<noteq> JNull then result else find_in_items xs)"

text \<open>The entries of \<open>subtitles_with_text\<close>.\<close>

record caption =
  start_time :: json
  end_time :: json
  caption_text :: pystr

text \<open>
  One pass of the loop over the fragments: \<open>Inr None\<close> when nothing is appended,
  \<open>Inr (Some c)\<close> when \<open>c\<close> is, \<open>Inl\<close> when the pass raises.
\<close>

definition extract_fragment :: "(pystr \<Rightarrow> error + json) \<Rightarrow> json \<Rightarrow> error + caption option" where
  "extract_fragment loads fragment =
     (case py_contains key_cache fragment of
        Inl e \<Rightarrow> Inl e
      | Inr has \<Rightarrow>
          if \<not> has then Inr None
          else
            (case py_getitem fragment key_cache of
               Inl e \<Rightarrow> Inl e
             | Inr info \<Rightarrow>
                 if \<not> truthy info then Inr None
                 else
                   (case extract_subtitle_text loads info of
                      Inl e \<Rightarrow> Inl e
                    | Inr t \<Rightarrow>
                        if strip t = [] then Inr None
                        else
                          (case py_getitem fragment key_start of
                             Inl e \<Rightarrow> Inl e
                           | Inr st \<Rightarrow>
                               (case py_getitem fragment key_end of
                                  Inl e \<Rightarrow> Inl e
                                | Inr en \<Rightarrow>
                                    Inr (Some \<lparr>start_time = st, end_time = en,
                                               caption_text = t\<rparr>))))))"

fun collect_subtitles ::
  "(pystr \<Rightarrow> error + json) \<Rightarrow> json list \<Rightarrow> caption list \<Rightarrow> error + caption list" where
  "collect_subtitles loads [] subtitles_with_text = Inr subtitles_with_text"
| "collect_subtitles loads (fragment # rest) subtitles_with_text =
     (case extract_fragment loads fragment of
        Inl e \<Rightarrow> Inl e
      | Inr None \<Rightarrow> collect_subtitles loads rest subtitles_with_text
      | Inr (Some c) \<Rightarrow> collect_subtitles loads rest (subtitles_with_text @ [c]))"

text \<open>
  \<open>subtitles_with_text.sort(key=lambda x: x["start_time"])\<close>. Keys that are ints,
  bools and finite floats compare by value, and the library's sort is stable. With any
  other key the sort raises TypeError or leaves some order; the key then reaches
  \<open>parse_time_microseconds\<close>, which raises on it, so the conversion ends in the same
  handler either way, and the model raises at the sort.
\<close>

fun num_value :: "json \<Rightarrow> rat option" where
  "num_value (JInt n) = Some (of_int n)"
| "num_value (JBool b) = Some (if b then 1 else 0)"
| "num_value (JFloat (Finite x)) = Some x"
| "num_value _ = None"

definition sort_value :: "caption \<Rightarrow> rat" where
  "sort_value c = the (num_value (start_time c))"

definition sort_by_start_time :: "caption list \<Rightarrow> error + caption list" where
  "sort_by_start_time subtitles =
     (if list_all (\<lambda>c. num_value (start_time c) \<noteq> None) subtitles
      then Inr (sort_key sort_value subtitles)
      else Inl TypeError)"

text \<open>
  The loop that builds \<open>srt_content\<close>; \<open>i\<close> is the index \<open>enumerate\<close> gives the head
  of the list.
\<close>

fun render_blocks :: "nat \<Rightarrow> caption list \<Rightarrow> pystr \<Rightarrow> error + pystr" where
  "render_blocks i [] srt_content = Inr srt_content"
| "render_blocks i (subtitle # rest) srt_content =
     (case parse_time_microseconds (start_time subtitle) of
        Inl e \<Rightarrow> Inl e
      | Inr st \<Rightarrow>
          (case parse_time_microseconds (end_time subtitle) of
             Inl e \<Rightarrow> Inl e
           | Inr en \<Rightarrow>
               render_blocks (Suc i) rest
                 (srt_content @ digits i @ [10] @ st @ ascii '' --> '' @ en @ [10] @
                  caption_text subtitle @ [10, 10])))"

text \<open>Sorting and rendering together: the count and the text the function returns.\<close>

definition serialize :: "caption list \<Rightarrow> error + nat \<times> pystr" where
  "serialize subtitles_with_text =
     (case sort_by_start_time subtitles_with_text of
        Inl e \<Rightarrow> Inl e
      | Inr sorted_subtitles \<Rightarrow>
          (case render_blocks 1 sorted_subtitles [] of
             Inl e \<Rightarrow> Inl e
           | Inr srt_content \<Rightarrow> Inr (length sorted_subtitles, srt_content)))"

text \<open>
  The surroundings of a run: what opening a path and decoding it with \<open>json.load\<close>
  gives (the document, or the exception raised), what the decoder \<open>json.loads\<close> gives
  for a text (the value, or the exception raised), and whether writing a text to a path
  raises.
\<close>

record env =
  load_json :: "pystr \<Rightarrow> error + json"
  json_loads :: "pystr \<Rightarrow> error + json"
  write_text :: "pystr \<Rightarrow> pystr \<Rightarrow> error option"

text \<open>
  The lines the function prints: field not found; file created and number found;
  input file not found; JSON parse error; any other exception.
\<close>

datatype message =
    Msg_field_not_found
  | Msg_created pystr
  | Msg_found nat
  | Msg_file_not_found pystr
  | Msg_json_error
  | Msg_exception

record outcome =
  returned :: "nat \<times> pystr"
  printed :: "message list"
  written :: "(pystr \<times> pystr) list"

text \<open>The body of the \<open>try\<close> statement, from the located value on.\<close>

definition convert_fragments :: "env \<Rightarrow> pystr \<Rightarrow> json \<Rightarrow> error + outcome" where
  "convert_fragments E output_file subtitle_fragments =
     (case py_iter subtitle_fragments of
        Inl e \<Rightarrow> Inl e
      | Inr fragments \<Rightarrow>
          (case collect_subtitles (json_loads E) fragments [] of
             Inl e \<Rightarrow> Inl e
           | Inr subtitles_with_text \<Rightarrow>
               (case serialize subtitles_with_text of
                  Inl e \<Rightarrow> Inl e
                | Inr (n, srt_content) \<Rightarrow>
                    (case write_text E output_file srt_content of
                       Some e \<Rightarrow> Inl e
                     | None \<Rightarrow>
                         Inr \<lparr>returned = (n, srt_content),
                              printed = [Msg_created output_file, Msg_found n],
                              written = [(output_file, srt_content)]\<rparr>))))"

definition convert_try :: "env \<Rightarrow> pystr \<Rightarrow> pystr \<Rightarrow> error + outcome" where
  "convert_try E input_file output_file =
     (case load_json E input_file of
        Inl e \<Rightarrow> Inl e
      | Inr data \<Rightarrow>
          let subtitle_fragments = find_subtitle_fragments data
          in if \<not> truthy subtitle_fragments
             then Inr \<lparr>returned = (0, []), printed = [Msg_field_not_found], written = []\<rparr>
             else convert_fragments E output_file subtitle_fragments)"

text \<open>The function, with its three handlers.\<close>

definition convert_draft_info_to_srt :: "env \<Rightarrow> pystr \<Rightarrow> pystr \<Rightarrow> outcome" where
  "convert_draft_info_to_srt E input_file output_file =
     (case convert_try E input_file output_file of
        Inr res \<Rightarrow> res
      | Inl e \<Rightarrow>
          \<lparr>returned = (0, []),
           printed =
             (if e = FileNotFoundError then [Msg_file_not_found input_file]
              else if e = JSONDecodeError then [Msg_json_error]
              else [Msg_exception]),
           written = []\<rparr>)"

section \<open>Reference definitions\<close>

subsection \<open>Occurrences of the key in traversal order\<close>

text \<open>
  The values bound to \<open>subtitle_fragment_info_list\<close> in depth-first order: a mapping
  that has the key contributes the bound value and is not descended into, any other
  mapping contributes what its values contribute, in insertion order; a sequence what
  its elements contribute, in index order; a scalar nothing.
\<close>

fun spec_occurrences :: "json \<Rightarrow> json list"
  and spec_occurrences_values :: "(pystr \<times> json) list \<Rightarrow> json list"
  and spec_occurrences_items :: "json list \<Rightarrow> json list" where
  "spec_occurrences (JObj kvs) =
     (case map_of kvs key_fragments of
        Some v \<Rightarrow> [v]
      | None \<Rightarrow> spec_occurrences_values kvs)"
| "spec_occurrences (JArr xs) = spec_occurrences_items xs"
| "spec_occurrences _ = []"
| "spec_occurrences_values [] = []"
| "spec_occurrences_values (kv # kvs) =
     spec_occurrences (snd kv) @ spec_occurrences_values kvs"
| "spec_occurrences_items [] = []"
| "spec_occurrences_items (x # xs) = spec_occurrences x @ spec_occurrences_items xs"

text \<open>The first value of a list, and the first that is not \<open>None\<close>; \<open>None\<close> if there is none.\<close>

definition first_or_null :: "json list \<Rightarrow> json" where
  "first_or_null vs = (case vs of [] \<Rightarrow> JNull | v # _ \<Rightarrow> v)"

fun first_nonnull :: "json list \<Rightarrow> json" where
  "first_nonnull [] = JNull"
| "first_nonnull (v # vs) = (if v \<noteq> JNull then v else first_nonnull vs)"

subsection \<open>The caption text of a sentence list\<close>

text \<open>
  A sentence-list element of the expected shape is a mapping whose \<open>text\<close>
  attribute, if it has one, is a string. The caption text collects the \<open>text\<close>
  attributes of the elements that have one, in list order, and joins them with the
  separator.
\<close>

fun well_typed_sentence :: "json \<Rightarrow> bool" where
  "well_typed_sentence (JObj kvs) =
     (case map_of kvs key_text of None \<Rightarrow> True | Some (JStr t) \<Rightarrow> True | Some _ \<Rightarrow> False)"
| "well_typed_sentence _ = False"

fun spec_texts :: "json list \<Rightarrow> pystr list" where
  "spec_texts [] = []"
| "spec_texts (JObj kvs # xs) =
     (case map_of kvs key_text of
        Some (JStr t) \<Rightarrow> t # spec_texts xs
      | _ \<Rightarrow> spec_texts xs)"
| "spec_texts (_ # xs) = spec_texts xs"

fun spec_join :: "pystr \<Rightarrow> pystr list \<Rightarrow> pystr" where
  "spec_join sep [] = []"
| "spec_join sep [s] = s"
| "spec_join sep (s # ss) = s @ sep @ spec_join sep ss"

text \<open>
  An element the loop passes over: a mapping without the key \<open>text\<close>, a string in
  which \<open>text\<close> does not occur, a list that does not hold the string \<open>text\<close>. A
  sentence list is tolerated when each element is of the expected shape or passed over.
\<close>

fun passed_over :: "json \<Rightarrow> bool" where
  "passed_over (JObj kvs) = (map_of kvs key_text = None)"
| "passed_over (JStr t) = (\<not> is_substring key_text t)"
| "passed_over (JArr ys) = (JStr key_text \<notin> set ys)"
| "passed_over _ = False"

definition tolerated_sentence :: "json \<Rightarrow> bool" where
  "tolerated_sentence x \<longleftrightarrow> well_typed_sentence x \<or> passed_over x"

text \<open>
  The decoder is caught on a cache value when what it raises there, if anything, is an
  exception the handler of \<open>extract_subtitle_text\<close> names.
\<close>

definition decoder_caught :: "(pystr \<Rightarrow> error + json) \<Rightarrow> json \<Rightarrow> bool" where
  "decoder_caught loads v =
     (case py_loads loads v of
        Inl e \<Rightarrow> e = JSONDecodeError \<or> e = KeyError \<or> e = TypeError
      | Inr d \<Rightarrow> True)"

text \<open>A scalar: \<open>null\<close>, a boolean or a number.\<close>

fun scalar :: "json \<Rightarrow> bool" where
  "scalar JNull = True"
| "scalar (JBool b) = True"
| "scalar (JInt n) = True"
| "scalar (JFloat f) = True"
| "scalar _ = False"

text \<open>A mapping element whose \<open>text\<close> attribute is not a string.\<close>

fun bad_text :: "json \<Rightarrow> bool" where
  "bad_text (JObj kvs) =
     (case map_of kvs key_text of None \<Rightarrow> False | Some (JStr t) \<Rightarrow> False | Some _ \<Rightarrow> True)"
| "bad_text _ = False"

subsection \<open>Rendered blocks\<close>

text \<open>
  A time the normalizer accepts, and what it renders. The block of a caption with
  index \<open>i\<close>: the index line, the line with both bounds, the text line, a blank line.
\<close>

definition time_ok :: "json \<Rightarrow> bool" where
  "time_ok t = (case parse_time_microseconds t of Inl e \<Rightarrow> False | Inr s \<Rightarrow> True)"

definition the_time :: "json \<Rightarrow> pystr" where
  "the_time t = (case parse_time_microseconds t of Inl e \<Rightarrow> [] | Inr s \<Rightarrow> s)"

definition spec_block :: "nat \<Rightarrow> caption \<Rightarrow> pystr" where
  "spec_block i c =
     digits i @ [10] @ the_time (start_time c) @ ascii '' --> '' @ the_time (end_time c) @
     [10] @ caption_text c @ [10, 10]"

subsection \<open>Captioned fragments\<close>

text \<open>
  The decoded text of a fragment: what the extractor makes of its cache field, and
  nothing when the fragment has no such field. A fragment is captioned when that text is
  not empty after trimming. \<open>discovered\<close> lists the captions of the fragments that
  yield one, in the order of the fragments.
\<close>

definition decoded_text :: "(pystr \<Rightarrow> error + json) \<Rightarrow> json \<Rightarrow> pystr" where
  "decoded_text loads fragment =
     (case py_getitem fragment key_cache of
        Inl e \<Rightarrow> []
      | Inr info \<Rightarrow> (case extract_subtitle_text loads info of Inl e \<Rightarrow> [] | Inr t \<Rightarrow> t))"

definition captioned :: "(pystr \<Rightarrow> error + json) \<Rightarrow> json \<Rightarrow> bool" where
  "captioned loads fragment \<longleftrightarrow> strip (decoded_text loads fragment) \<noteq> []"

definition discovered :: "(pystr \<Rightarrow> error + json) \<Rightarrow> json list \<Rightarrow> caption list" where
  "discovered loads fragments =
     List.map_filter
       (\<lambda>fragment. case extract_fragment loads fragment of Inl e \<Rightarrow> None | Inr r \<Rightarrow> r)
       fragments"

text \<open>
  A fragment record without a caption: its cache field is missing, or empty, or the
  extractor returns for it a text that is empty after trimming (as it does when the
  decoder rejects the cache text with JSONDecodeError, and when the decoded content
  has no usable sentence list).
\<close>

definition uncaptioned :: "(pystr \<Rightarrow> error + json) \<Rightarrow> (pystr \<times> json) list \<Rightarrow> bool" where
  "uncaptioned loads kvs =
     (case map_of kvs key_cache of
        None \<Rightarrow> True
      | Some v \<Rightarrow>
          \<not> truthy v \<or>
          (case extract_subtitle_text loads v of Inl e \<Rightarrow> False | Inr t \<Rightarrow> strip t = []))"

text \<open>The three ways a run ends without captions, and the way it ends on any other fault.\<close>

definition not_found_outcome :: outcome where
  "not_found_outcome =
     \<lparr>returned = (0, []), printed = [Msg_field_not_found], written = []\<rparr>"

definition file_not_found_outcome :: "pystr \<Rightarrow> outcome" where
  "file_not_found_outcome input_file =
     \<lparr>returned = (0, []), printed = [Msg_file_not_found input_file], written = []\<rparr>"

definition malformed_outcome :: outcome where
  "malformed_outcome = \<lparr>returned = (0, []), printed = [Msg_json_error], written = []\<rparr>"

definition fault_outcome :: outcome where
  "fault_outcome = \<lparr>returned = (0, []), printed = [Msg_exception], written = []\<rparr>"

section \<open>Sample data\<close>

text \<open>
  A document whose first occurrence of the key is bound to \<open>null\<close>:
  \<^verbatim>\<open>{"a": {"subtitle_fragment_info_list": null}, "b": {"subtitle_fragment_info_list": [1]}}\<close>
\<close>

definition doc_null_first :: json where
  "doc_null_first =
     JObj [(ascii ''a'', JObj [(key_fragments, JNull)]),
           (ascii ''b'', JObj [(key_fragments, JArr [JInt 1])])]"

text \<open>
  A document with the key at depth two, under a sequence:
  \<^verbatim>\<open>{"x": 1, "tracks": [{"subtitle_fragment_info_list": [2]}, {"subtitle_fragment_info_list": [3]}]}\<close>
\<close>

definition doc_nested :: json where
  "doc_nested =
     JObj [(ascii ''x'', JInt 1),
           (ascii ''tracks'', JArr [JObj [(key_fragments, JArr [JInt 2])],
                                    JObj [(key_fragments, JArr [JInt 3])]])]"

text \<open>
  Cache texts and what \<open>json.loads\<close> gives for them; \<open>sample_loads\<close> is the decoder on
  the texts used below. \<open>big_number_cache\<close> is the digit 9 written 4301 times, an
  integer literal over the interpreter's limit of 4300 digits, on which the decoder
  raises ValueError; \<open>not_json\<close> is no JSON text.
\<close>

definition hello_cache :: pystr where
  \<open>hello_cache = ascii ''{"sentence_list":[{"text":"Hello"},{"text":"world"}]}''\<close>

definition hello_value :: json where
  "hello_value =
     JObj [(key_sentence_list,
            JArr [JObj [(key_text, JStr (ascii ''Hello''))],
                  JObj [(key_text, JStr (ascii ''world''))]])]"

definition mixed_cache :: pystr where
  \<open>mixed_cache = ascii ''{"sentence_list":[{"text":"Hi"},"abc"]}''\<close>

definition mixed_value :: json where
  "mixed_value =
     JObj [(key_sentence_list,
            JArr [JObj [(key_text, JStr (ascii ''Hi''))], JStr (ascii ''abc'')])]"

definition number_cache :: pystr where
  \<open>number_cache = ascii ''{"sentence_list":[{"text":"Hi"},{"text":5},7]}''\<close>

definition number_value :: json where
  "number_value =
     JObj [(key_sentence_list,
            JArr [JObj [(key_text, JStr (ascii ''Hi''))], JObj [(key_text, JInt 5)],
                  JInt 7])]"

definition blank_cache :: pystr where
  \<open>blank_cache = ascii ''{"sentence_list":[{"text":" "},{"id":1}]}''\<close>

definition blank_value :: json where
  "blank_value =
     JObj [(key_sentence_list,
            JArr [JObj [(key_text, JStr (ascii '' ''))], JObj [(ascii ''id'', JInt 1)]])]"

definition array_cache :: pystr where
  "array_cache = ascii ''[1]''"

definition scalar_list_cache :: pystr where
  \<open>scalar_list_cache = ascii ''{"sentence_list":5}''\<close>

definition empty_list_cache :: pystr where
  \<open>empty_list_cache = ascii ''{"sentence_list":[]}''\<close>

definition no_list_cache :: pystr where
  \<open>no_list_cache = ascii ''{"words":[]}''\<close>

definition not_json :: pystr where
  "not_json = ascii ''oops''"

definition untyped_cache :: pystr where
  \<open>untyped_cache = ascii ''{"sentence_list":[{"text":"Hi"},{"text":5}]}''\<close>

definition untyped_value :: json where
  "untyped_value =
     JObj [(key_sentence_list,
            JArr [JObj [(key_text, JStr (ascii ''Hi''))], JObj [(key_text, JInt 5)]])]"

definition big_number_cache :: pystr where
  "big_number_cache = replicate 4301 57"

definition sample_loads :: "pystr \<Rightarrow> error + json" where
  "sample_loads s =
     (if s = hello_cache then Inr hello_value
      else if s = mixed_cache then Inr mixed_value
      else if s = number_cache then Inr number_value
      else if s = blank_cache then Inr blank_value
      else if s = array_cache then Inr (JArr [JInt 1])
      else if s = scalar_list_cache then Inr (JObj [(key_sentence_list, JInt 5)])
      else if s = empty_list_cache then Inr (JObj [(key_sentence_list, JArr [])])
      else if s = no_list_cache then Inr (JObj [(ascii ''words'', JArr [])])
      else if s = untyped_cache then Inr untyped_value
      else if s = big_number_cache then Inl ValueError
      else Inl JSONDecodeError)"

text \<open>Fragment records.\<close>

definition frag_hello :: "(pystr \<times> json) list" where
  "frag_hello =
     [(key_start, JInt 1500000), (key_end, JInt 3250000), (key_cache, JStr hello_cache)]"


definition frag_empty_cache :: "(pystr \<times> json) list" where
  "frag_empty_cache = [(key_start, JInt 0), (key_end, JInt 1500000), (key_cache, JStr [])]"

definition frag_not_json :: "(pystr \<times> json) list" where
  "frag_not_json =
     [(key_start, JInt 0), (key_end, JInt 1500000), (key_cache, JStr not_json)]"




definition frag_no_start :: "(pystr \<times> json) list" where
  "frag_no_start = [(key_end, JInt 3250000), (key_cache, JStr hello_cache)]"



text \<open>
  Two fragments that start at 3.25 s, with different texts, and one that starts at
  1.5 s.
\<close>

definition frag_late :: "(pystr \<times> json) list" where
  "frag_late =
     [(key_start, JInt 3250000), (key_end, JInt 3250000), (key_cache, JStr hello_cache)]"

definition frag_tie :: "(pystr \<times> json) list" where
  "frag_tie =
     [(key_start, JInt 3250000), (key_end, JInt 3250000), (key_cache, JStr mixed_cache)]"

definition frag_early :: "(pystr \<times> json) list" where
  "frag_early =
     [(key_start, JInt 1500000), (key_end, JInt 3250000), (key_cache, JStr mixed_cache)]"

definition draft_path :: pystr where
  "draft_path = ascii ''draft_info.json''"

definition srt_path :: pystr where
  "srt_path = ascii ''captions.srt''"

text \<open>
  A run in which \<open>draft_info.json\<close> holds the document \<open>data\<close>, no other file exists,
  and every write succeeds.
\<close>

definition sample_env :: "json \<Rightarrow> env" where
  "sample_env data =
     \<lparr>load_json = (\<lambda>path. if path = draft_path then Inr data else Inl FileNotFoundError),
      json_loads = sample_loads,
      write_text = (\<lambda>path s. None)\<rparr>"

text \<open>Captions with the same start time, and one that starts earlier.\<close>

definition cap_first :: caption where
  "cap_first =
     \<lparr>start_time = JInt 3250000, end_time = JInt 3250000, caption_text = ascii ''one''\<rparr>"

definition cap_second :: caption where
  "cap_second =
     \<lparr>start_time = JInt 3250000, end_time = JInt 3250000, caption_text = ascii ''two''\<rparr>"

definition cap_hello :: caption where
  "cap_hello =
     \<lparr>start_time = JInt 1500000, end_time = JInt 3250000,
      caption_text = ascii ''Hello world''\<rparr>"

text \<open>The captions of the fragments \<open>frag_late\<close>, \<open>frag_tie\<close> and \<open>frag_early\<close>.\<close>

definition cap_late :: caption where
  "cap_late =
     \<lparr>start_time = JInt 3250000, end_time = JInt 3250000,
      caption_text = ascii ''Hello world''\<rparr>"

definition cap_tie :: caption where
  "cap_tie =
     \<lparr>start_time = JInt 3250000, end_time = JInt 3250000, caption_text = ascii ''Hi''\<rparr>"

definition cap_early :: caption where
  "cap_early =
     \<lparr>start_time = JInt 1500000, end_time = JInt 3250000, caption_text = ascii ''Hi''\<rparr>"

text \<open>
  The document of the scenario:
  \<^verbatim>\<open>{"a": {"subtitle_fragment_info_list": [{"start_time": 1500000, "end_time": 3250000,
     "subtitle_cache_info": "{\"sentence_list\":[{\"text\":\"Hello\"},{\"text\":\"world\"}]}"}]}}\<close>
\<close>

definition doc_hello :: json where
  "doc_hello = JObj [(ascii ''a'', JObj [(key_fragments, JArr [JObj frag_hello])])]"

text \<open>
  The same fragment list with a second fragment that has caption text and no
  \<open>start_time\<close>, and that second fragment alone.
\<close>

definition doc_hello_no_start :: json where
  "doc_hello_no_start = JObj [(key_fragments, JArr [JObj frag_hello, JObj frag_no_start])]"

definition doc_no_start :: json where
  "doc_no_start = JObj [(key_fragments, JArr [JObj frag_no_start])]"

text \<open>
  The fragment list of the scenario followed by a fragment with an empty cache field,
  and by one whose cache text is not JSON.
\<close>

definition doc_hello_empty :: json where
  "doc_hello_empty =
     JObj [(key_fragments, JArr [JObj frag_hello, JObj frag_empty_cache])]"

definition doc_hello_not_json :: json where
  "doc_hello_not_json =
     JObj [(key_fragments, JArr [JObj frag_hello, JObj frag_not_json])]"

text \<open>
  A list of four fragments: the two that start at 3.25 s with a fragment without
  caption between them, then the one that starts at 1.5 s; and the text and the outcome
  of its conversion.
\<close>

definition multi_fragments :: "json list" where
  "multi_fragments = [JObj frag_late, JObj frag_empty_cache, JObj frag_tie, JObj frag_early]"

definition doc_multi :: json where
  "doc_multi = JObj [(key_fragments, JArr multi_fragments)]"

definition captioned_fragments :: "json list" where
  "captioned_fragments = [JObj frag_late, JObj frag_tie, JObj frag_early]"

definition doc_captioned :: json where
  "doc_captioned = JObj [(key_fragments, JArr captioned_fragments)]"

definition multi_text :: pystr where
  "multi_text =
     ascii ''1'' @ [10] @ ascii ''00:00:01,500 --> 00:00:03,250'' @ [10] @
     ascii ''Hi'' @ [10, 10] @
     ascii ''2'' @ [10] @ ascii ''00:00:03,250 --> 00:00:03,250'' @ [10] @
     ascii ''Hello world'' @ [10, 10] @
     ascii ''3'' @ [10] @ ascii ''00:00:03,250 --> 00:00:03,250'' @ [10] @
     ascii ''Hi'' @ [10, 10]"

definition multi_outcome :: outcome where
  "multi_outcome =
     \<lparr>returned = (3, multi_text), printed = [Msg_created srt_path, Msg_found 3],
      written = [(srt_path, multi_text)]\<rparr>"

text \<open>The block of the scenario, and the outcome of a run that writes it.\<close>

definition hello_block :: pystr where
  "hello_block =
     ascii ''1'' @ [10] @ ascii ''00:00:01,500 --> 00:00:03,250'' @ [10] @
     ascii ''Hello world'' @ [10, 10]"

definition hello_outcome :: outcome where
  "hello_outcome =
     \<lparr>returned = (1, hello_block), printed = [Msg_created srt_path, Msg_found 1],
      written = [(srt_path, hello_block)]\<rparr>"

section \<open>Properties\<close>

subsection \<open>The prompt builder\<close>

text \<open>
  Claim C8. For every string \<open>s\<close> the prompt builder returns the fixed instruction
  block followed by \<open>s\<close>. The block is the text written out below, code point by
  code point: 304 code points in seven lines, each ended by a line feed (four lines of
  instructions, an empty line, the closing sentence, an empty line). It is the same for
  every \<open>s\<close>, it is a prefix of the result, and what follows it is \<open>s\<close>, unchanged.
\<close>

theorem create_ai_prompt_concat:
  "create_ai_prompt s =
     [1053, 1091, 1078, 1085, 1086, 32, 1087, 1077, 1088, 1077, 1074, 1077, 1089, 1090,
      1080, 32, 1089, 1091, 1073, 1090, 1080, 1090, 1088, 1099, 32, 1085, 1072, 32,
      1072, 1085, 1075, 1083, 1080, 1081, 1089, 1082, 1080, 1081, 32, 1103, 1079, 1099,
      1082, 32, 10, 49, 32, 1057, 1086, 1093, 1088, 1072, 1085, 1103, 1090, 1100, 32,
      1090, 1086, 1095, 1085, 1086, 1077, 32, 1082, 1086, 1083, 1080, 1095, 1077, 1089,
      1090, 1074, 1086, 32, 1089, 1090, 1088, 1086, 1082, 32, 1080, 32, 1086, 1088,
      1080, 1075, 1080, 1085, 1072, 1083, 1100, 1085, 1099, 1077, 32, 1074, 1088, 1077,
      1084, 1077, 1085, 1085, 1099, 1077, 32, 1084, 1077, 1090, 1082, 1080, 32, 10, 50,
      32, 1048, 1089, 1087, 1086, 1083, 1100, 1079, 1086, 1074, 1072, 1090, 1100, 32,
      1080, 1085, 1089, 1090, 1088, 1091, 1082, 1090, 1080, 1074, 1085, 1099, 1081, 44,
      32, 1088, 1072, 1079, 1075, 1086, 1074, 1086, 1088, 1085, 1099, 1081, 32, 1089,
      1090, 1080, 1083, 1100, 32, 1089, 32, 1077, 1089, 1090, 1077, 1089, 1090, 1074,
      1077, 1085, 1085, 1099, 1084, 1080, 32, 1072, 1085, 1075, 1083, 1080, 1081, 1089,
      1082, 1080, 1084, 1080, 32, 1082, 1086, 1085, 1089, 1090, 1088, 1091, 1082, 1094,
      1080, 1103, 1084, 1080, 32, 10, 51, 32, 1057, 1090, 1088, 1086, 1075, 1086, 32,
      1087, 1088, 1080, 1076, 1077, 1088, 1078, 1080, 1074, 1072, 1090, 1100, 1089,
      1103, 32, 1090, 1077, 1088, 1084, 1080, 1085, 1086, 1083, 1086, 1075, 1080, 1080,
      10, 10, 1042, 32, 1080, 1090, 1086, 1075, 1077, 32, 1076, 1086, 1083, 1078, 1077,
      1085, 32, 1087, 1086, 1083, 1091, 1095, 1080, 1090, 1100, 1089, 1103, 32, 1090,
      1077, 1082, 1089, 1090, 32, 1074, 32, 1090, 1072, 1082, 1086, 1084, 32, 1078,
      1077, 32, 1092, 1086, 1088, 1084, 1072, 1090, 1077, 32, 1082, 1072, 1082, 32,
      1080, 32, 1073, 1099, 1083, 10, 10] @ s \<and>
   create_ai_prompt [] =
     concat (map (\<lambda>l. l @ [10])
      [[1053, 1091, 1078, 1085, 1086, 32, 1087, 1077, 1088, 1077, 1074, 1077, 1089, 1090,
       1080, 32, 1089, 1091, 1073, 1090, 1080, 1090, 1088, 1099, 32, 1085, 1072, 32,
       1072, 1085, 1075, 1083, 1080, 1081, 1089, 1082, 1080, 1081, 32, 1103, 1079, 1099,
       1082, 32],
       [49, 32, 1057, 1086, 1093, 1088, 1072, 1085, 1103, 1090, 1100, 32, 1090, 1086,
       1095, 1085, 1086, 1077, 32, 1082, 1086, 1083, 1080, 1095, 1077, 1089, 1090, 1074,
       1086, 32, 1089, 1090, 1088, 1086, 1082, 32, 1080, 32, 1086, 1088, 1080, 1075,
       1080, 1085, 1072, 1083, 1100, 1085, 1099, 1077, 32, 1074, 1088, 1077, 1084, 1077,
       1085, 1085, 1099, 1077, 32, 1084, 1077, 1090, 1082, 1080, 32],
       [50, 32, 1048, 1089, 1087, 1086, 1083, 1100, 1079, 1086, 1074, 1072, 1090, 1100,
       32, 1080, 1085, 1089, 1090, 1088, 1091, 1082, 1090, 1080, 1074, 1085, 1099, 1081,
       44, 32, 1088, 1072, 1079, 1075, 1086, 1074, 1086, 1088, 1085, 1099, 1081, 32,
       1089, 1090, 1080, 1083, 1100, 32, 1089, 32, 1077, 1089, 1090, 1077, 1089, 1090,
       1074, 1077, 1085, 1085, 1099, 1084, 1080, 32, 1072, 1085, 1075, 1083, 1080, 1081,
       1089, 1082, 1080, 1084, 1080, 32, 1082, 1086, 1085, 1089, 1090, 1088, 1091, 1082,
       1094, 1080, 1103, 1084, 1080, 32],
       [51, 32, 1057, 1090, 1088, 1086, 1075, 1086, 32, 1087, 1088, 1080, 1076, 1077,
       1088, 1078, 1080, 1074, 1072, 1090, 1100, 1089, 1103, 32, 1090, 1077, 1088, 1084,
       1080, 1085, 1086, 1083, 1086, 1075, 1080, 1080],
       [],
       [1042, 32, 1080, 1090, 1086, 1075, 1077, 32, 1076, 1086, 1083, 1078, 1077, 1085,
       32, 1087, 1086, 1083, 1091, 1095, 1080, 1090, 1100, 1089, 1103, 32, 1090, 1077,
       1082, 1089, 1090, 32, 1074, 32, 1090, 1072, 1082, 1086, 1084, 32, 1078, 1077, 32,
       1092, 1086, 1088, 1084, 1072, 1090, 1077, 32, 1082, 1072, 1082, 32, 1080, 32,
       1073, 1099, 1083],
       []]) \<and>
   create_ai_prompt s = create_ai_prompt [] @ s \<and>
   create_ai_prompt [] \<noteq> [] \<and>
   length (create_ai_prompt []) = 304 \<and>
   count_list (create_ai_prompt []) 10 = 7 \<and>
   length (create_ai_prompt s) = 304 + length s \<and>
   take 304 (create_ai_prompt s) = create_ai_prompt [] \<and>
   drop 304 (create_ai_prompt s) = s"
  by (simp add: create_ai_prompt_def base_prompt_def)

subsection \<open>The locator\<close>

lemma first_nonnull_append:
  "first_nonnull (xs @ ys) =
     (if first_nonnull xs \<noteq> JNull then first_nonnull xs else first_nonnull ys)"
  by (induction xs) auto

lemma find_first_nonnull:
  "find_subtitle_fragments j = first_nonnull (spec_occurrences j)"
  "find_in_values kvs = first_nonnull (spec_occurrences_values kvs)"
  "find_in_items xs = first_nonnull (spec_occurrences_items xs)"
proof (induction j and kvs and xs
    rule: find_subtitle_fragments_find_in_values_find_in_items.induct)
  case (1 kvs)
  then show ?case by (auto split: option.splits)
qed (auto simp: first_nonnull_append Let_def)

lemma first_nonnull_no_null:
  "JNull \<notin> set vs \<Longrightarrow> first_nonnull vs = first_or_null vs"
  by (cases vs) (auto simp: first_or_null_def)

lemma occurrences_doc_nested:
  "spec_occurrences doc_nested = [JArr [JInt 2], JArr [JInt 3]]"
  by (simp add: doc_nested_def key_fragments_def)

text \<open>
  Claim C1, as the code has it. The locator returns the value of the first occurrence
  of the key, in the depth-first order of the claim, that is not bound to \<open>null\<close>, and
  \<open>None\<close> when there is no such occurrence; an occurrence bound to \<open>null\<close> counts as
  no match, and the search goes on in the sibling branches. So the result is the first
  occurrence whenever no occurrence is bound to \<open>null\<close>, and \<open>None\<close> when the key is
  absent everywhere.
\<close>

theorem locator_first_non_null_occurrence:
  "find_subtitle_fragments j = first_nonnull (spec_occurrences j) \<and>
   (JNull \<notin> set (spec_occurrences j) \<longrightarrow>
      find_subtitle_fragments j = first_or_null (spec_occurrences j)) \<and>
   (spec_occurrences j = [] \<longrightarrow> find_subtitle_fragments j = JNull)"
  using find_first_nonnull(1) [of j] first_nonnull_no_null [of "spec_occurrences j"]
  by auto

theorem locator_first_non_null_occurrence_witness:
  "JNull \<notin> set (spec_occurrences doc_nested) \<and>
   find_subtitle_fragments doc_nested = JArr [JInt 2] \<and>
   spec_occurrences (JInt 5) = [] \<and> find_subtitle_fragments (JInt 5) = JNull"
  using locator_first_non_null_occurrence [of doc_nested]
    locator_first_non_null_occurrence [of "JInt 5"]
  by (simp add: occurrences_doc_nested first_or_null_def)

text \<open>
  The claim as it is written fails where the first occurrence is bound to \<open>null\<close>: the
  locator goes on and returns the value of a later occurrence.
\<close>

theorem locator_null_binding_counterexample:
  "spec_occurrences doc_null_first = [JNull, JArr [JInt 1]] \<and>
   find_subtitle_fragments doc_null_first = JArr [JInt 1] \<and>
   find_subtitle_fragments doc_null_first \<noteq>
     first_or_null (spec_occurrences doc_null_first)"
  by (simp add: doc_null_first_def key_fragments_def first_or_null_def)

subsection \<open>The time normalizer\<close>

lemma parse_time_fields:
  assumes "true_divide_1000000 t = Inr x"
    and "py_int (float_floor_div x 3600) = h"
    and "py_int (float_floor_div (float_rem x 3600) 60) = m"
    and "py_int (float_rem x 60) = s"
    and "py_int (round_double (float_rem x 1 * 1000)) = ms"
  shows "parse_time_microseconds t =
           Inr (format_d 2 h @ ascii '':'' @ format_d 2 m @ ascii '':'' @
                format_d 2 s @ ascii '','' @ format_d 3 ms)"
  using assms by (simp add: parse_time_microseconds_def)

lemma format_samples:
  "format_d 2 0 = ascii ''00''" "format_d 2 1 = ascii ''01''" "format_d 2 3 = ascii ''03''"
  "format_d 3 0 = ascii ''000''" "format_d 3 500 = ascii ''500''"
  "format_d 3 250 = ascii ''250''"
  by code_simp+

text \<open>1.001 s: the quotient is the double just below 1.001.\<close>

lemma seconds_1001000:
  "true_divide_1000000 (JInt 1001000) = Inr (2254051613498933 / 2251799813685248)"
  by code_simp

lemma hours_1001000:
  "py_int (float_floor_div (2254051613498933 / 2251799813685248) 3600) = 0"
  by code_simp

lemma rem3600_1001000:
  "float_rem (2254051613498933 / 2251799813685248) 3600 =
     2254051613498933 / 2251799813685248"
  by code_simp

lemma minutes_1001000:
  "py_int (float_floor_div (float_rem (2254051613498933 / 2251799813685248) 3600) 60) = 0"
  unfolding rem3600_1001000 by code_simp

lemma secs_1001000: "py_int (float_rem (2254051613498933 / 2251799813685248) 60) = 1"
  by code_simp

lemma frac_1001000:
  "float_rem (2254051613498933 / 2251799813685248) 1 = 2251799813685 / 2251799813685248"
  by code_simp

lemma ms_1001000:
  "py_int (round_double (float_rem (2254051613498933 / 2251799813685248) 1 * 1000)) = 0"
  unfolding frac_1001000 by code_simp

text \<open>1.5 s and 3.25 s are doubles, and every step is exact.\<close>

lemma seconds_1500000: "true_divide_1000000 (JInt 1500000) = Inr (3 / 2)"
  by code_simp

lemma hours_1500000: "py_int (float_floor_div (3 / 2) 3600) = 0"
  by code_simp

lemma minutes_1500000: "py_int (float_floor_div (float_rem (3 / 2) 3600) 60) = 0"
  by code_simp

lemma secs_1500000: "py_int (float_rem (3 / 2) 60) = 1"
  by code_simp

lemma ms_1500000: "py_int (round_double (float_rem (3 / 2) 1 * 1000)) = 500"
  by code_simp

lemma parse_time_1500000:
  "parse_time_microseconds (JInt 1500000) = Inr (ascii ''00:00:01,500'')"
  using parse_time_fields [OF seconds_1500000 hours_1500000 minutes_1500000
      secs_1500000 ms_1500000]
  by (simp add: format_samples)

lemma seconds_3250000: "true_divide_1000000 (JInt 3250000) = Inr (13 / 4)"
  by code_simp

lemma hours_3250000: "py_int (float_floor_div (13 / 4) 3600) = 0"
  by code_simp

lemma minutes_3250000: "py_int (float_floor_div (float_rem (13 / 4) 3600) 60) = 0"
  by code_simp

lemma secs_3250000: "py_int (float_rem (13 / 4) 60) = 3"
  by code_simp

lemma ms_3250000: "py_int (round_double (float_rem (13 / 4) 1 * 1000)) = 250"
  by code_simp

lemma parse_time_3250000:
  "parse_time_microseconds (JInt 3250000) = Inr (ascii ''00:00:03,250'')"
  using parse_time_fields [OF seconds_3250000 hours_3250000 minutes_3250000
      secs_3250000 ms_3250000]
  by (simp add: format_samples)

text \<open>
  Claim C3 at \<open>t = 1001000\<close>. The claim gives 1001 ms, that is \<open>00:00:01,001\<close>; the
  function divides in binary64, the fractional second comes out just below 0.001, and
  the milliseconds truncate to 0.
\<close>

theorem parse_time_1001000:
  "parse_time_microseconds (JInt 1001000) = Inr (ascii ''00:00:01,000'')"
  using parse_time_fields [OF seconds_1001000 hours_1001000 minutes_1001000
      secs_1001000 ms_1001000]
  by (simp add: format_samples)

subsection \<open>The fragment extractor\<close>

lemma py_contains_error: "py_contains k v = Inl e \<Longrightarrow> e = TypeError"
  by (cases v) auto

lemma py_getitem_error: "py_getitem v k = Inl e \<Longrightarrow> e = KeyError \<or> e = TypeError"
  by (cases v) (auto split: option.splits)

lemma py_iter_error: "py_iter v = Inl e \<Longrightarrow> e = TypeError"
  by (cases v) auto

lemma py_join_error: "py_join sep xs = Inl e \<Longrightarrow> e = TypeError"
  by (induction sep xs rule: py_join.induct) (auto split: sum.splits)

lemma collect_sentences_error:
  "collect_sentences xs acc = Inl e \<Longrightarrow> e = KeyError \<or> e = TypeError"
  by (induction xs acc rule: collect_sentences.induct)
     (auto split: sum.splits if_splits dest: py_contains_error py_getitem_error)

lemma extract_try_error:
  "extract_try loads v = Inl e \<Longrightarrow>
     py_loads loads v = Inl e \<or> e = KeyError \<or> e = TypeError"
  unfolding extract_try_def
  by (auto split: sum.splits if_splits
      dest: py_contains_error py_getitem_error py_iter_error py_join_error
        collect_sentences_error)

lemma decoder_caught_cases:
  "(\<And>s. v \<noteq> JStr s) \<Longrightarrow> decoder_caught loads v"
  "loads s = Inr d \<Longrightarrow> decoder_caught loads (JStr s)"
  "loads s = Inl JSONDecodeError \<Longrightarrow> decoder_caught loads (JStr s)"
  by (cases v) (auto simp: decoder_caught_def)

lemma extract_of_try:
  "decoder_caught loads v \<Longrightarrow>
     extract_subtitle_text loads v =
       (if \<not> truthy v \<or> v = JStr [] then Inr []
        else case extract_try loads v of Inl e \<Rightarrow> Inr [] | Inr s \<Rightarrow> Inr s)"
  unfolding extract_subtitle_text_def decoder_caught_def
  by (auto split: sum.splits dest: extract_try_error)

lemma extract_subtitle_text_returns:
  "decoder_caught loads v \<Longrightarrow> \<exists>s. extract_subtitle_text loads v = Inr s"
  by (auto simp: extract_of_try split: sum.splits)

lemma extract_falsy: "\<not> truthy v \<Longrightarrow> extract_subtitle_text loads v = Inr []"
  by (simp add: extract_subtitle_text_def)

lemma extract_empty_text: "extract_subtitle_text loads (JStr []) = Inr []"
  by (simp add: extract_subtitle_text_def)

lemma extract_decode_raises:
  assumes "s \<noteq> []" and "loads s = Inl e"
    and "e \<noteq> JSONDecodeError" and "e \<noteq> KeyError" and "e \<noteq> TypeError"
  shows "extract_subtitle_text loads (JStr s) = Inl e"
  using assms by (simp add: extract_subtitle_text_def extract_try_def)

lemma extract_not_string:
  "(\<And>s. v \<noteq> JStr s) \<Longrightarrow> extract_subtitle_text loads v = Inr []"
  by (cases v) (auto simp: extract_subtitle_text_def extract_try_def)

lemma extract_not_mapping:
  assumes "loads s = Inr d" and "\<And>kvs. d \<noteq> JObj kvs"
  shows "extract_subtitle_text loads (JStr s) = Inr []"
  using assms decoder_caught_cases(2) [where loads = loads, OF assms(1)]
  by (cases d) (auto simp: extract_of_try extract_try_def split: sum.splits)

lemma collect_sentences_strings:
  "collect_sentences (map (\<lambda>x. JStr (f x)) ks) acc = Inr r \<Longrightarrow> r = acc"
  by (induction ks arbitrary: acc) (auto split: if_splits)

lemma collect_sentences_scalar:
  "collect_sentences xs acc = Inr r \<Longrightarrow> x \<in> set xs \<Longrightarrow> \<not> scalar x"
proof (induction xs acc rule: collect_sentences.induct)
  case (2 sentence rest sentences)
  then show ?case
    by (cases sentence) (auto split: sum.splits if_splits)
qed simp

lemma collect_sentences_grows:
  "collect_sentences xs acc = Inr r \<Longrightarrow> set acc \<subseteq> set r"
  by (induction xs acc rule: collect_sentences.induct)
     (auto split: sum.splits if_splits)

lemma collect_sentences_bad_text:
  "collect_sentences xs acc = Inr r \<Longrightarrow> x \<in> set xs \<Longrightarrow> bad_text x \<Longrightarrow>
     \<exists>t \<in> set r. \<forall>u. t \<noteq> JStr u"
proof (induction xs acc rule: collect_sentences.induct)
  case (2 sentence rest sentences)
  show ?case
  proof (cases "x = sentence")
    case True
    with "2.prems" obtain kvs t where s: "sentence = JObj kvs" "map_of kvs key_text = Some t"
      "\<And>u. t \<noteq> JStr u"
      by (cases sentence) (auto split: option.splits json.splits)
    with "2.prems"(1) have "collect_sentences rest (sentences @ [t]) = Inr r"
      by simp
    from collect_sentences_grows [OF this] s(3) show ?thesis
      by auto
  next
    case False
    with "2.prems" have "x \<in> set rest" by simp
    with 2 show ?thesis
      by (auto split: sum.splits if_splits)
  qed
qed simp

lemma py_join_strings: "py_join sep xs = Inr r \<Longrightarrow> t \<in> set xs \<Longrightarrow> \<exists>u. t = JStr u"
  by (induction sep xs arbitrary: r rule: py_join.induct) (auto split: sum.splits)

lemma py_join_spec: "py_join sep (map JStr ts) = Inr (spec_join sep ts)"
  by (induction sep ts rule: spec_join.induct) auto

lemma collect_sentences_tolerated:
  "list_all tolerated_sentence xs \<Longrightarrow>
     collect_sentences xs acc = Inr (acc @ map JStr (spec_texts xs))"
proof (induction xs arbitrary: acc)
  case (Cons x xs)
  then show ?case
    by (cases x) (auto simp: tolerated_sentence_def split: option.splits json.splits)
qed simp

lemma well_typed_tolerated:
  "list_all well_typed_sentence xs \<Longrightarrow> list_all tolerated_sentence xs"
  by (simp add: list_all_iff tolerated_sentence_def)

lemma extract_sentence_list:
  assumes "s \<noteq> []" and "loads s = Inr (JObj d)" and "map_of d key_sentence_list = Some sl"
    and "truthy sl"
  shows "extract_subtitle_text loads (JStr s) =
           (case py_iter sl of
              Inl e \<Rightarrow> Inr []
            | Inr items \<Rightarrow>
                (case collect_sentences items [] of
                   Inl e \<Rightarrow> Inr []
                 | Inr sentences \<Rightarrow>
                     (case py_join (ascii '' '') sentences of Inl e \<Rightarrow> Inr [] | Inr t \<Rightarrow> Inr t)))"
  using assms decoder_caught_cases(2) [where loads = loads, OF assms(2)]
  by (simp add: extract_of_try extract_try_def split: sum.splits)

lemma not_text_in_char: "py_contains key_text (JStr [c]) = Inr False"
  by (simp add: key_text_def)

lemma collect_sentences_chars:
  "collect_sentences (map (\<lambda>c. JStr [c]) t) acc = Inr acc"
  by (induction t) (simp_all add: not_text_in_char del: py_contains.simps)

lemma extract_not_sequence:
  assumes "loads s = Inr (JObj d)" and "map_of d key_sentence_list = Some sl"
    and "\<And>xs. sl \<noteq> JArr xs"
  shows "extract_subtitle_text loads (JStr s) = Inr []"
proof (cases "s = [] \<or> \<not> truthy sl")
  case True
  with assms(1,2) decoder_caught_cases(2) [where loads = loads, OF assms(1)] show ?thesis
    by (auto simp: extract_of_try extract_try_def)
next
  case False
  then have *: "s \<noteq> []" "truthy sl" by auto
  show ?thesis
  proof (cases sl)
    case (JStr t)
    then show ?thesis
      using extract_sentence_list [where loads = loads, OF *(1) assms(1,2) *(2)]
      by (simp add: collect_sentences_chars)
  next
    case (JObj kvs)
    then show ?thesis
      using extract_sentence_list [where loads = loads, OF *(1) assms(1,2) *(2)]
      by (auto split: sum.splits dest!: collect_sentences_strings)
  qed (use assms(3) extract_sentence_list [where loads = loads, OF *(1) assms(1,2) *(2)] in auto)
qed

lemma extract_scalar_element:
  assumes "loads s = Inr (JObj d)" and "map_of d key_sentence_list = Some (JArr xs)"
    and "x \<in> set xs" and "scalar x"
  shows "extract_subtitle_text loads (JStr s) = Inr []"
proof (cases "s = []")
  case False
  from assms(3) have "truthy (JArr xs)" by auto
  from extract_sentence_list [where loads = loads, OF False assms(1,2) this] assms(3,4)
  show ?thesis
    by (auto split: sum.splits dest: collect_sentences_scalar)
qed (simp add: extract_empty_text)

lemma extract_bad_text_element:
  assumes "loads s = Inr (JObj d)" and "map_of d key_sentence_list = Some (JArr xs)"
    and "x \<in> set xs" and "bad_text x"
  shows "extract_subtitle_text loads (JStr s) = Inr []"
proof (cases "s = []")
  case False
  from assms(3) have "truthy (JArr xs)" by auto
  from extract_sentence_list [where loads = loads, OF False assms(1,2) this] assms(3,4)
  show ?thesis
    by (auto split: sum.splits dest!: collect_sentences_bad_text dest: py_join_strings)
qed (simp add: extract_empty_text)

lemma extract_tolerated:
  assumes "s \<noteq> []" and "loads s = Inr (JObj d)"
    and "map_of d key_sentence_list = Some (JArr xs)" and "xs \<noteq> []"
    and "list_all tolerated_sentence xs"
  shows "extract_subtitle_text loads (JStr s) = Inr (spec_join (ascii '' '') (spec_texts xs))"
proof -
  from assms(4) have "truthy (JArr xs)" by simp
  from extract_sentence_list [where loads = loads, OF assms(1,2,3) this] show ?thesis
    by (simp add: collect_sentences_tolerated [OF assms(5)] py_join_spec)
qed

lemma extract_well_typed:
  assumes "s \<noteq> []" and "loads s = Inr (JObj d)"
    and "map_of d key_sentence_list = Some (JArr xs)" and "xs \<noteq> []"
    and "list_all well_typed_sentence xs"
  shows "extract_subtitle_text loads (JStr s) = Inr (spec_join (ascii '' '') (spec_texts xs))"
  using extract_tolerated [where loads = loads, OF assms(1-4) well_typed_tolerated [OF assms(5)]] .

lemmas sample_texts =
  hello_cache_def mixed_cache_def number_cache_def blank_cache_def array_cache_def
  scalar_list_cache_def empty_list_cache_def no_list_cache_def not_json_def
  untyped_cache_def

lemma big_number_length: "length big_number_cache = 4301"
  by (simp add: big_number_cache_def)

lemma big_number_distinct:
  "big_number_cache \<noteq> hello_cache" "big_number_cache \<noteq> mixed_cache"
  "big_number_cache \<noteq> number_cache" "big_number_cache \<noteq> blank_cache"
  "big_number_cache \<noteq> array_cache" "big_number_cache \<noteq> scalar_list_cache"
  "big_number_cache \<noteq> empty_list_cache" "big_number_cache \<noteq> no_list_cache"
  "big_number_cache \<noteq> untyped_cache" "big_number_cache \<noteq> []"
  "big_number_cache \<noteq> not_json"
proof -
  have neq: "length x \<noteq> 4301 \<Longrightarrow> big_number_cache \<noteq> x" for x
    using big_number_length by auto
  show "big_number_cache \<noteq> hello_cache" "big_number_cache \<noteq> mixed_cache"
    "big_number_cache \<noteq> number_cache" "big_number_cache \<noteq> blank_cache"
    "big_number_cache \<noteq> array_cache" "big_number_cache \<noteq> scalar_list_cache"
    "big_number_cache \<noteq> empty_list_cache" "big_number_cache \<noteq> no_list_cache"
    "big_number_cache \<noteq> untyped_cache" "big_number_cache \<noteq> []"
    "big_number_cache \<noteq> not_json"
    by (rule neq, simp add: sample_texts)+
qed

lemma sample_loads_values:
  "sample_loads hello_cache = Inr hello_value"
  "sample_loads mixed_cache = Inr mixed_value"
  "sample_loads number_cache = Inr number_value"
  "sample_loads blank_cache = Inr blank_value"
  "sample_loads array_cache = Inr (JArr [JInt 1])"
  "sample_loads scalar_list_cache = Inr (JObj [(key_sentence_list, JInt 5)])"
  "sample_loads empty_list_cache = Inr (JObj [(key_sentence_list, JArr [])])"
  "sample_loads no_list_cache = Inr (JObj [(ascii ''words'', JArr [])])"
  "sample_loads untyped_cache = Inr untyped_value"
  by (simp_all add: sample_loads_def sample_texts)

lemma sample_loads_not_json: "sample_loads not_json = Inl JSONDecodeError"
proof -
  have "not_json \<noteq> big_number_cache"
    using big_number_distinct(11) by (rule not_sym)
  then show ?thesis
    by (simp add: sample_loads_def sample_texts)
qed

lemma sample_loads_big_number: "sample_loads big_number_cache = Inl ValueError"
  by (simp add: sample_loads_def big_number_distinct)

lemma sample_nonempty:
  "hello_cache \<noteq> []" "mixed_cache \<noteq> []" "number_cache \<noteq> []" "blank_cache \<noteq> []"
  "untyped_cache \<noteq> []" "not_json \<noteq> []"
  by (simp_all add: sample_texts)

lemma extract_hello:
  "extract_subtitle_text sample_loads (JStr hello_cache) = Inr (ascii ''Hello world'')"
  using extract_well_typed [where loads = sample_loads and s = hello_cache
      and d = "[(key_sentence_list,
            JArr [JObj [(key_text, JStr (ascii ''Hello''))],
                  JObj [(key_text, JStr (ascii ''world''))]])]"
      and xs = "[JObj [(key_text, JStr (ascii ''Hello''))],
                  JObj [(key_text, JStr (ascii ''world''))]]"]
  by (simp add: sample_loads_values sample_nonempty hello_value_def)

lemma extract_mixed:
  "extract_subtitle_text sample_loads (JStr mixed_cache) = Inr (ascii ''Hi'')"
  by (simp add: sample_loads_values sample_nonempty extract_subtitle_text_def extract_try_def
      mixed_value_def key_text_def)



lemma extract_big_number:
  "extract_subtitle_text sample_loads (JStr big_number_cache) = Inl ValueError"
  using extract_decode_raises [of big_number_cache sample_loads ValueError]
  by (simp add: sample_loads_big_number big_number_distinct)

lemma extract_decode_fails:
  "loads s = Inl JSONDecodeError \<Longrightarrow> extract_subtitle_text loads (JStr s) = Inr []"
  by (simp add: extract_subtitle_text_def extract_try_def)

lemma extract_no_list:
  "loads s = Inr (JObj d) \<Longrightarrow> map_of d key_sentence_list = None \<Longrightarrow>
     extract_subtitle_text loads (JStr s) = Inr []"
  by (simp add: extract_subtitle_text_def extract_try_def)

lemma extract_empty_list:
  "loads s = Inr (JObj d) \<Longrightarrow> map_of d key_sentence_list = Some sl \<Longrightarrow> \<not> truthy sl \<Longrightarrow>
     extract_subtitle_text loads (JStr s) = Inr []"
  by (simp add: extract_subtitle_text_def extract_try_def)

lemma strip_empty: "strip [] = []"
  by (simp add: strip_def)

lemma fragment_no_cache:
  "map_of kvs key_cache = None \<Longrightarrow> extract_fragment loads (JObj kvs) = Inr None"
  by (simp add: extract_fragment_def)

lemma fragment_falsy_cache:
  "map_of kvs key_cache = Some v \<Longrightarrow> \<not> truthy v \<Longrightarrow>
     extract_fragment loads (JObj kvs) = Inr None"
  by (simp add: extract_fragment_def)

lemma fragment_blank_text:
  "map_of kvs key_cache = Some v \<Longrightarrow> extract_subtitle_text loads v = Inr t \<Longrightarrow>
     strip t = [] \<Longrightarrow> extract_fragment loads (JObj kvs) = Inr None"
  by (simp add: extract_fragment_def)



lemma sample_keys:
  "key_cache \<noteq> key_start" "key_cache \<noteq> key_end" "key_start \<noteq> key_end"
  "key_start \<noteq> key_cache" "key_end \<noteq> key_cache" "key_end \<noteq> key_start"
  by (simp_all add: key_cache_def key_start_def key_end_def)




text \<open>
  Claim C9, as the code has it. Whenever \<open>json.loads\<close> returns a value or fails with
  JSONDecodeError, \<open>extract_subtitle_text\<close> returns a string and raises nothing, for
  every argument. It returns the empty string for a cache value that is not a string,
  a decode result that is not a mapping, a \<open>sentence_list\<close> value that is not a
  sequence, a sentence list with an element that is \<open>null\<close>, a boolean or a number,
  and one with a mapping whose \<open>text\<close> is not a string. A sentence-list element that
  is a string in which \<open>text\<close> does not occur, or a list that does not hold the string
  \<open>text\<close>, is passed over like a mapping without the key: for a non-empty sentence
  list of such elements and of mappings in which \<open>text\<close>, where present, is a string,
  the result is the \<open>text\<close> attributes present, in order, joined with one space.
\<close>

theorem extract_subtitle_text_total:
  "((\<forall>s e. v = JStr s \<and> loads s = Inl e \<longrightarrow> e = JSONDecodeError) \<longrightarrow>
      (\<exists>t. extract_subtitle_text loads v = Inr t)) \<and>
   ((\<forall>s. v \<noteq> JStr s) \<longrightarrow> extract_subtitle_text loads v = Inr []) \<and>
   (loads s = Inr d \<and> (\<forall>kvs. d \<noteq> JObj kvs) \<longrightarrow>
      extract_subtitle_text loads (JStr s) = Inr []) \<and>
   (loads s = Inr (JObj kvs) \<and> map_of kvs key_sentence_list = Some sl \<and>
    (\<forall>xs. sl \<noteq> JArr xs) \<longrightarrow>
      extract_subtitle_text loads (JStr s) = Inr []) \<and>
   (loads s = Inr (JObj kvs) \<and> map_of kvs key_sentence_list = Some (JArr xs) \<and>
    x \<in> set xs \<and> (scalar x \<or> bad_text x) \<longrightarrow>
      extract_subtitle_text loads (JStr s) = Inr []) \<and>
   (s \<noteq> [] \<and> loads s = Inr (JObj kvs) \<and> map_of kvs key_sentence_list = Some (JArr xs) \<and>
    xs \<noteq> [] \<and> list_all tolerated_sentence xs \<longrightarrow>
      extract_subtitle_text loads (JStr s) =
        Inr (spec_join (ascii '' '') (spec_texts xs)))"
proof -
  have "\<exists>t. extract_subtitle_text loads v = Inr t"
    if "\<forall>s e. v = JStr s \<and> loads s = Inl e \<longrightarrow> e = JSONDecodeError"
  proof -
    from that have "decoder_caught loads v"
      by (cases v) (auto simp: decoder_caught_def split: sum.splits)
    then show ?thesis by (rule extract_subtitle_text_returns)
  qed
  then show ?thesis
    using extract_not_string [of v loads]
      extract_not_mapping [of loads s d]
      extract_not_sequence [of loads s kvs sl]
      extract_scalar_element [of loads s kvs xs x]
      extract_bad_text_element [of loads s kvs xs x]
      extract_tolerated [of s loads kvs xs]
    by blast
qed

theorem extract_subtitle_text_total_witness:
  "sample_loads not_json = Inl JSONDecodeError \<and>
   extract_subtitle_text sample_loads (JStr not_json) = Inr [] \<and>
   extract_subtitle_text sample_loads (JInt 5) = Inr [] \<and>
   extract_subtitle_text sample_loads (JStr array_cache) = Inr [] \<and>
   extract_subtitle_text sample_loads (JStr scalar_list_cache) = Inr [] \<and>
   sample_loads number_cache = Inr number_value \<and>
   extract_subtitle_text sample_loads (JStr number_cache) = Inr [] \<and>
   sample_loads mixed_cache = Inr mixed_value \<and>
   extract_subtitle_text sample_loads (JStr mixed_cache) = Inr (ascii ''Hi'')"
proof -
  note T = extract_subtitle_text_total [where loads = sample_loads]
  have "\<exists>t. extract_subtitle_text sample_loads (JStr not_json) = Inr t"
    using T [where v = "JStr not_json"] by (simp add: sample_loads_not_json)
  then have "extract_subtitle_text sample_loads (JStr not_json) = Inr []"
    by (auto simp: extract_subtitle_text_def extract_try_def sample_loads_not_json
        split: if_splits)
  moreover have "extract_subtitle_text sample_loads (JInt 5) = Inr []"
    using T [where v = "JInt 5"] by simp
  moreover have "extract_subtitle_text sample_loads (JStr array_cache) = Inr []"
    using T [where s = array_cache and d = "JArr [JInt 1]"]
    by (simp add: sample_loads_values)
  moreover have "extract_subtitle_text sample_loads (JStr scalar_list_cache) = Inr []"
    using T [where s = scalar_list_cache
        and kvs = "[(key_sentence_list, JInt 5)]" and sl = "JInt 5"]
    by (simp add: sample_loads_values)
  moreover have "extract_subtitle_text sample_loads (JStr number_cache) = Inr []"
    using T [where s = number_cache
        and kvs = "[(key_sentence_list,
            JArr [JObj [(key_text, JStr (ascii ''Hi''))], JObj [(key_text, JInt 5)],
                  JInt 7])]"
        and xs = "[JObj [(key_text, JStr (ascii ''Hi''))], JObj [(key_text, JInt 5)],
                  JInt 7]"
        and x = "JInt 7"]
    by (simp add: sample_loads_values number_value_def)
  moreover have
    "extract_subtitle_text sample_loads (JStr mixed_cache) = Inr (ascii ''Hi'')"
    using T [where s = mixed_cache
        and kvs = "[(key_sentence_list,
            JArr [JObj [(key_text, JStr (ascii ''Hi''))], JStr (ascii ''abc'')])]"
        and xs = "[JObj [(key_text, JStr (ascii ''Hi''))], JStr (ascii ''abc'')]"]
    by (simp add: sample_loads_values sample_nonempty mixed_value_def tolerated_sentence_def
        key_text_def)
  ultimately show ?thesis
    by (simp add: sample_loads_values sample_loads_not_json)
qed

text \<open>
  The claim as it is written fails in two places. A sentence-list element that is a
  string without \<open>text\<close> in it does not collapse the result to the empty string: the
  text of the other elements is returned. And the function raises: on a cache text of
  4301 digits the decoder raises ValueError, which the handler does not name.
\<close>

theorem extract_mixed_counterexample:
  "sample_loads mixed_cache = Inr mixed_value \<and>
   extract_subtitle_text sample_loads (JStr mixed_cache) = Inr (ascii ''Hi'') \<and>
   sample_loads big_number_cache = Inl ValueError \<and>
   extract_subtitle_text sample_loads (JStr big_number_cache) = Inl ValueError"
  by (simp add: sample_loads_values sample_loads_big_number extract_mixed extract_big_number)

subsection \<open>The serializer\<close>

lemma time_ok_num_value: "time_ok t \<Longrightarrow> num_value t \<noteq> None"
  by (cases t rule: num_value.cases) (auto simp: time_ok_def parse_time_microseconds_def)

lemma time_ok_parse: "time_ok t \<Longrightarrow> parse_time_microseconds t = Inr (the_time t)"
  by (auto simp: time_ok_def the_time_def split: sum.splits)

lemma render_blocks_eq:
  "\<forall>c \<in> set cs. time_ok (start_time c) \<and> time_ok (end_time c) \<Longrightarrow>
     render_blocks i cs acc = Inr (acc @ concat (map2 spec_block [i..<i + length cs] cs))"
proof (induction cs arbitrary: i acc)
  case Nil
  then show ?case by simp
next
  case (Cons c cs)
  have "[i..<i + length (c # cs)] = i # [Suc i..<Suc i + length cs]"
    by (subst upt_rec) simp
  with Cons show ?case
    by (simp add: time_ok_parse spec_block_def)
qed

lemma serialize_eq:
  assumes "\<forall>c \<in> set caps. time_ok (start_time c) \<and> time_ok (end_time c)"
  shows "serialize caps =
           Inr (length caps,
                concat (map2 spec_block [1..<Suc (length caps)] (sort_key sort_value caps)))"
proof -
  from assms have "list_all (\<lambda>c. num_value (start_time c) \<noteq> None) caps"
    by (auto simp: list_all_iff dest: time_ok_num_value)
  then have s: "sort_by_start_time caps = Inr (sort_key sort_value caps)"
    by (simp add: sort_by_start_time_def)
  from assms have
    "\<forall>c \<in> set (sort_key sort_value caps). time_ok (start_time c) \<and> time_ok (end_time c)"
    by simp
  from render_blocks_eq [OF this, of 1 "[]"] s show ?thesis
    by (simp add: serialize_def)
qed

lemma render_blocks_ok_times:
  "render_blocks i cs acc = Inr s \<Longrightarrow> c \<in> set cs \<Longrightarrow>
     time_ok (start_time c) \<and> time_ok (end_time c)"
proof (induction cs arbitrary: i acc)
  case Nil
  then show ?case by simp
next
  case (Cons a cs)
  from Cons.prems(1) obtain st en acc' where
    a: "parse_time_microseconds (start_time a) = Inr st"
      "parse_time_microseconds (end_time a) = Inr en"
    and rest: "render_blocks (Suc i) cs acc' = Inr s"
    by (auto split: sum.splits)
  show ?case
  proof (cases "c = a")
    case True
    with a show ?thesis by (simp add: time_ok_def)
  next
    case False
    with Cons.prems(2) have "c \<in> set cs" by simp
    from Cons.IH [OF rest this] show ?thesis .
  qed
qed

lemma serialize_ok_times:
  assumes "serialize caps = Inr r"
  shows "\<forall>c \<in> set caps. time_ok (start_time c) \<and> time_ok (end_time c)"
proof -
  from assms obtain s where "render_blocks 1 (sort_key sort_value caps) [] = Inr s"
    by (auto simp: serialize_def sort_by_start_time_def split: sum.splits if_splits)
  from render_blocks_ok_times [OF this] show ?thesis by simp
qed

text \<open>
  Claim C4. For captions whose start and end times the normalizer accepts, the
  serializer returns the number of captions and the text made of one block per caption,
  the captions taken in ascending order of start time with equal start times left in
  their given order, the blocks numbered from 1, each block being the index line, the
  line \<open>start --> end\<close> of the normalizer's two strings, the text line and a blank
  line. With no caption the text is empty.
\<close>

theorem serialize_blocks:
  assumes "\<forall>c \<in> set caps. time_ok (start_time c) \<and> time_ok (end_time c)"
  shows "serialize caps =
           Inr (length caps,
                concat (map2 spec_block [1..<Suc (length caps)] (sort_key sort_value caps))) \<and>
         sorted (map sort_value (sort_key sort_value caps)) \<and>
         mset (sort_key sort_value caps) = mset caps \<and>
         (\<forall>k. filter (\<lambda>c. sort_value c = k) (sort_key sort_value caps) =
              filter (\<lambda>c. sort_value c = k) caps) \<and>
         (caps = [] \<longrightarrow> serialize caps = Inr (0, []))"
  using serialize_eq [OF assms] by (auto simp: sort_key_stable)

lemma time_ok_samples: "time_ok (JInt 1500000)" "time_ok (JInt 3250000)"
  by (simp_all add: time_ok_def parse_time_1500000 parse_time_3250000)

lemma the_time_samples:
  "the_time (JInt 1500000) = ascii ''00:00:01,500''"
  "the_time (JInt 3250000) = ascii ''00:00:03,250''"
  by (simp_all add: the_time_def parse_time_1500000 parse_time_3250000)

lemma digits_samples:
  "digits (Suc 0) = ascii ''1''" "digits 2 = ascii ''2''" "digits 3 = ascii ''3''"
  by (simp_all add: digits.simps)

theorem serialize_blocks_witness:
  "serialize [cap_first, cap_second, cap_hello] =
     Inr (3, ascii ''1'' @ [10] @ ascii ''00:00:01,500 --> 00:00:03,250'' @ [10] @
             ascii ''Hello world'' @ [10, 10] @
             ascii ''2'' @ [10] @ ascii ''00:00:03,250 --> 00:00:03,250'' @ [10] @
             ascii ''one'' @ [10, 10] @
             ascii ''3'' @ [10] @ ascii ''00:00:03,250 --> 00:00:03,250'' @ [10] @
             ascii ''two'' @ [10, 10]) \<and>
   serialize [] = Inr (0, [])"
proof -
  have ok: "\<forall>c \<in> set [cap_first, cap_second, cap_hello].
      time_ok (start_time c) \<and> time_ok (end_time c)"
    by (simp add: cap_first_def cap_second_def cap_hello_def time_ok_samples)
  have order: "sort_key sort_value [cap_first, cap_second, cap_hello] =
      [cap_hello, cap_first, cap_second]"
    by (simp add: sort_value_def cap_first_def cap_second_def cap_hello_def)
  have len: "length [cap_first, cap_second, cap_hello] = 3"
    by simp
  have idx: "[1..<Suc 3] = [1, 2, 3]"
    by (simp add: upt_rec)
  have blocks: "concat (map2 spec_block [1..<Suc 3] [cap_hello, cap_first, cap_second]) =
      ascii ''1'' @ [10] @ ascii ''00:00:01,500 --> 00:00:03,250'' @ [10] @
             ascii ''Hello world'' @ [10, 10] @
             ascii ''2'' @ [10] @ ascii ''00:00:03,250 --> 00:00:03,250'' @ [10] @
             ascii ''one'' @ [10, 10] @
             ascii ''3'' @ [10] @ ascii ''00:00:03,250 --> 00:00:03,250'' @ [10] @
             ascii ''two'' @ [10, 10]"
    unfolding idx
    by (simp add: spec_block_def the_time_samples cap_first_def cap_second_def cap_hello_def
        digits_samples)
  have "serialize [cap_first, cap_second, cap_hello] =
      Inr (length [cap_first, cap_second, cap_hello],
           concat (map2 spec_block [1..<Suc (length [cap_first, cap_second, cap_hello])]
             (sort_key sort_value [cap_first, cap_second, cap_hello])))"
    using serialize_blocks [OF ok] by (rule conjunct1)
  moreover have "serialize [] = Inr (0, [])"
    using serialize_blocks [of "[]"] by simp
  ultimately show ?thesis
    by (simp only: len order blocks)
qed

subsection \<open>The loop over the fragments\<close>

lemma collect_subtitles_discovered:
  "collect_subtitles loads fs acc = Inr caps \<Longrightarrow>
     caps = acc @ discovered loads fs \<and> (\<forall>f \<in> set fs. \<exists>r. extract_fragment loads f = Inr r)"
proof (induction fs arbitrary: acc)
  case Nil
  then show ?case by (simp add: discovered_def)
next
  case (Cons f fs)
  show ?case
  proof (cases "extract_fragment loads f")
    case (Inl e)
    with Cons.prems show ?thesis by simp
  next
    case (Inr r)
    show ?thesis
    proof (cases r)
      case None
      with Inr Cons.prems have "collect_subtitles loads fs acc = Inr caps" by simp
      from Cons.IH [OF this] Inr None show ?thesis
        by (simp add: discovered_def)
    next
      case (Some c)
      with Inr Cons.prems have "collect_subtitles loads fs (acc @ [c]) = Inr caps" by simp
      from Cons.IH [OF this] Inr Some show ?thesis
        by (simp add: discovered_def)
    qed
  qed
qed

lemma extract_fragment_captioned:
  "extract_fragment loads f = Inr r \<Longrightarrow> (r \<noteq> None) = captioned loads f"
  unfolding extract_fragment_def captioned_def decoded_text_def
  by (cases f)
     (auto simp: extract_falsy strip_empty split: sum.splits if_splits option.splits)

lemma discovered_count:
  "\<forall>f \<in> set fs. \<exists>r. extract_fragment loads f = Inr r \<Longrightarrow>
     length (discovered loads fs) = length (filter (captioned loads) fs)"
proof (induction fs)
  case Nil
  then show ?case by (simp add: discovered_def)
next
  case (Cons f fs)
  then obtain r where r: "extract_fragment loads f = Inr r" by auto
  from Cons have "length (discovered loads fs) = length (filter (captioned loads) fs)"
    by simp
  with r extract_fragment_captioned [OF r] show ?case
    by (cases r) (auto simp: discovered_def)
qed

lemma uncaptioned_skipped:
  assumes "uncaptioned loads kvs"
  shows "extract_fragment loads (JObj kvs) = Inr None"
proof (cases "map_of kvs key_cache")
  case None
  then show ?thesis by (rule fragment_no_cache)
next
  case (Some v)
  show ?thesis
  proof (cases "truthy v")
    case False
    with Some show ?thesis by (simp add: fragment_falsy_cache)
  next
    case True
    with Some assms obtain t where "extract_subtitle_text loads v = Inr t" "strip t = []"
      by (auto simp: uncaptioned_def split: sum.splits)
    with Some show ?thesis by (simp add: fragment_blank_text)
  qed
qed

lemma uncaptioned_cases:
  "map_of kvs key_cache = None \<Longrightarrow> uncaptioned loads kvs"
  "map_of kvs key_cache = Some v \<Longrightarrow> \<not> truthy v \<Longrightarrow> uncaptioned loads kvs"
  "map_of kvs key_cache = Some (JStr s) \<Longrightarrow> loads s = Inl JSONDecodeError \<Longrightarrow>
     uncaptioned loads kvs"
  "map_of kvs key_cache = Some (JStr s) \<Longrightarrow> loads s = Inr (JObj d) \<Longrightarrow>
     map_of d key_sentence_list = None \<Longrightarrow> uncaptioned loads kvs"
  "map_of kvs key_cache = Some (JStr s) \<Longrightarrow> loads s = Inr (JObj d) \<Longrightarrow>
     map_of d key_sentence_list = Some sl \<Longrightarrow> \<not> truthy sl \<Longrightarrow> uncaptioned loads kvs"
  by (simp_all add: uncaptioned_def extract_decode_fails extract_no_list extract_empty_list
      strip_empty)

lemma collect_subtitles_skip:
  "extract_fragment loads f = Inr None \<Longrightarrow>
     collect_subtitles loads (xs @ f # ys) acc = collect_subtitles loads (xs @ ys) acc"
  by (induction xs arbitrary: acc) (auto split: sum.splits option.splits)

lemma extract_fragment_hello:
  "extract_fragment sample_loads (JObj frag_hello) = Inr (Some cap_hello)"
  by (simp add: extract_fragment_def frag_hello_def cap_hello_def sample_keys extract_hello
      sample_nonempty strip_def is_space_def)

lemma extract_fragment_no_start:
  "extract_fragment sample_loads (JObj frag_no_start) = Inl KeyError"
  by (simp add: extract_fragment_def frag_no_start_def sample_keys extract_hello
      sample_nonempty strip_def is_space_def)

lemma extract_fragment_multi:
  "extract_fragment sample_loads (JObj frag_late) = Inr (Some cap_late)"
  "extract_fragment sample_loads (JObj frag_empty_cache) = Inr None"
  "extract_fragment sample_loads (JObj frag_tie) = Inr (Some cap_tie)"
  "extract_fragment sample_loads (JObj frag_early) = Inr (Some cap_early)"
  by (simp_all add: extract_fragment_def frag_late_def frag_empty_cache_def frag_tie_def
      frag_early_def cap_late_def cap_tie_def cap_early_def sample_keys extract_hello
      extract_mixed sample_nonempty strip_def is_space_def)

lemma captioned_no_start: "captioned sample_loads (JObj frag_no_start)"
  by (simp add: captioned_def decoded_text_def frag_no_start_def sample_keys extract_hello
      strip_def is_space_def)

lemma serialize_hello: "serialize [cap_hello] = Inr (1, hello_block)"
proof -
  have "\<forall>c \<in> set [cap_hello]. time_ok (start_time c) \<and> time_ok (end_time c)"
    by (simp add: cap_hello_def time_ok_samples)
  from serialize_eq [OF this] show ?thesis
    by (simp add: spec_block_def hello_block_def cap_hello_def the_time_samples
        digits_samples)
qed

lemma sort_multi:
  "sort_key sort_value [cap_late, cap_tie, cap_early] = [cap_early, cap_late, cap_tie]"
  by (simp add: sort_value_def cap_late_def cap_tie_def cap_early_def)

lemma serialize_multi: "serialize [cap_late, cap_tie, cap_early] = Inr (3, multi_text)"
proof -
  have ok: "\<forall>c \<in> set [cap_late, cap_tie, cap_early].
      time_ok (start_time c) \<and> time_ok (end_time c)"
    by (simp add: cap_late_def cap_tie_def cap_early_def time_ok_samples)
  have len: "length [cap_late, cap_tie, cap_early] = 3"
    by simp
  have idx: "[1..<Suc 3] = [1, 2, 3]"
    by (simp add: upt_rec)
  have blocks: "concat (map2 spec_block [1..<Suc 3] [cap_early, cap_late, cap_tie]) =
      multi_text"
    unfolding idx
    by (simp add: spec_block_def the_time_samples cap_late_def cap_tie_def cap_early_def
        digits_samples multi_text_def)
  from serialize_eq [OF ok] show ?thesis
    by (simp only: len sort_multi blocks)
qed

lemma convert_fragments_hello:
  "json_loads E = sample_loads \<Longrightarrow> write_text E srt_path hello_block = None \<Longrightarrow>
     convert_fragments E srt_path (JArr [JObj frag_hello]) = Inr hello_outcome"
  by (simp add: convert_fragments_def extract_fragment_hello serialize_hello
      hello_outcome_def)

lemma convert_fragments_multi:
  "convert_fragments (sample_env data) srt_path (JArr multi_fragments) = Inr multi_outcome"
  by (simp add: convert_fragments_def sample_env_def multi_fragments_def
      extract_fragment_multi serialize_multi multi_outcome_def)

lemma convert_fragments_captioned:
  "json_loads E = sample_loads \<Longrightarrow> write_text E srt_path multi_text = None \<Longrightarrow>
     convert_fragments E srt_path (JArr captioned_fragments) = Inr multi_outcome"
  by (simp add: convert_fragments_def captioned_fragments_def extract_fragment_multi
      serialize_multi multi_outcome_def)

lemma find_samples:
  "find_subtitle_fragments doc_hello = JArr [JObj frag_hello]"
  "find_subtitle_fragments doc_hello_no_start = JArr [JObj frag_hello, JObj frag_no_start]"
  "find_subtitle_fragments doc_no_start = JArr [JObj frag_no_start]"
  "find_subtitle_fragments doc_hello_empty = JArr [JObj frag_hello, JObj frag_empty_cache]"
  "find_subtitle_fragments doc_hello_not_json = JArr [JObj frag_hello, JObj frag_not_json]"
  "find_subtitle_fragments doc_multi = JArr multi_fragments"
  "find_subtitle_fragments doc_captioned = JArr captioned_fragments"
  by (simp_all add: doc_hello_def doc_hello_no_start_def doc_no_start_def
      doc_hello_empty_def doc_hello_not_json_def doc_multi_def doc_captioned_def
      key_fragments_def)

lemma convert_try_hello:
  "convert_try (sample_env doc_hello) draft_path srt_path = Inr hello_outcome"
proof -
  have "load_json (sample_env doc_hello) draft_path = Inr doc_hello"
    by (simp add: sample_env_def)
  then show ?thesis
    by (simp add: convert_try_def find_samples convert_fragments_hello sample_env_def)
qed

lemma convert_try_multi:
  "convert_try (sample_env doc_multi) draft_path srt_path = Inr multi_outcome"
proof -
  have "load_json (sample_env doc_multi) draft_path = Inr doc_multi"
    by (simp add: sample_env_def)
  moreover have "truthy (JArr multi_fragments)"
    by (simp add: multi_fragments_def)
  ultimately show ?thesis
    by (simp add: convert_try_def find_samples convert_fragments_multi)
qed

lemma convert_captioned_env:
  "convert_draft_info_to_srt ((sample_env data)\<lparr>load_json := \<lambda>path. Inr doc_captioned\<rparr>)
     draft_path srt_path = multi_outcome"
proof -
  have t: "truthy (JArr captioned_fragments)"
    by (simp add: captioned_fragments_def)
  have c: "convert_fragments ((sample_env data)\<lparr>load_json := \<lambda>path. Inr doc_captioned\<rparr>)
      srt_path (JArr captioned_fragments) = Inr multi_outcome"
    by (rule convert_fragments_captioned) (simp_all add: sample_env_def)
  from t c show ?thesis
    by (simp add: convert_draft_info_to_srt_def convert_try_def find_samples)
qed

lemma convert_hello_env:
  "convert_draft_info_to_srt ((sample_env data)\<lparr>load_json := \<lambda>path. Inr doc_hello\<rparr>)
     draft_path srt_path = hello_outcome"
  by (simp add: convert_draft_info_to_srt_def convert_try_def find_samples
      convert_fragments_hello sample_env_def)

lemma convert_try_no_start:
  "convert_try (sample_env doc_no_start) draft_path srt_path = Inl KeyError"
  by (simp add: find_samples convert_try_def convert_fragments_def sample_env_def
      extract_fragment_no_start)

lemma convert_try_fragments:
  assumes "load_json E input_file = Inr data"
    and "find_subtitle_fragments data = JArr fragments"
  shows "convert_try E input_file output_file =
           (if fragments = [] then Inr not_found_outcome
            else convert_fragments E output_file (JArr fragments))"
  using assms by (simp add: convert_try_def not_found_outcome_def)

lemma convert_of_try:
  "convert_try E input_file output_file = Inr res \<Longrightarrow>
     convert_draft_info_to_srt E input_file output_file = res"
  by (simp add: convert_draft_info_to_srt_def)

lemma convert_fault:
  "convert_try E input_file output_file = Inl e \<Longrightarrow>
     returned (convert_draft_info_to_srt E input_file output_file) = (0, [])"
  by (simp add: convert_draft_info_to_srt_def)

lemma convert_fragments_result:
  assumes "convert_fragments E output_file (JArr fragments) = Inr res"
  shows "returned res =
           (length (filter (captioned (json_loads E)) fragments),
            concat (map2 spec_block
              [1..<Suc (length (filter (captioned (json_loads E)) fragments))]
              (sort_key sort_value (discovered (json_loads E) fragments))))"
proof -
  from assms obtain caps r where
    caps: "collect_subtitles (json_loads E) fragments [] = Inr caps"
    and r: "serialize caps = Inr r" and res: "returned res = r"
    by (auto simp: convert_fragments_def split: sum.splits option.splits prod.splits)
  from collect_subtitles_discovered [OF caps] have
    d: "caps = discovered (json_loads E) fragments"
    and "\<forall>f \<in> set fragments. \<exists>r. extract_fragment (json_loads E) f = Inr r"
    by simp_all
  from discovered_count [OF this(2)] d have
    n: "length caps = length (filter (captioned (json_loads E)) fragments)"
    by simp
  from serialize_eq [OF serialize_ok_times [OF r]] r res show ?thesis
    unfolding n d [symmetric] by simp
qed

lemma convert_fragments_env:
  "convert_fragments (E\<lparr>load_json := f\<rparr>) output_file v = convert_fragments E output_file v"
  by (simp add: convert_fragments_def
      cong: sum.case_cong option.case_cong prod.case_cong)

subsection \<open>Caption count and order\<close>

text \<open>
  Claim C5, as the code has it. Whenever the conversion of a located fragment list
  ends without a fault, the count it returns is the number of fragments whose decoded
  text is not empty after trimming, and the text it returns is made of the blocks of
  the discovered captions in ascending order of start time, captions with the same
  start time staying in their order of discovery. When the conversion ends in a fault,
  it returns count 0 and the empty text, whatever the fragments hold.
\<close>

theorem caption_count_and_order:
  assumes "load_json E input_file = Inr data"
    and "find_subtitle_fragments data = JArr fragments"
  shows "(convert_try E input_file output_file = Inr res \<longrightarrow>
           convert_draft_info_to_srt E input_file output_file = res \<and>
           fst (returned res) = length (filter (captioned (json_loads E)) fragments) \<and>
           snd (returned res) =
             concat (map2 spec_block [1..<Suc (fst (returned res))]
               (sort_key sort_value (discovered (json_loads E) fragments))) \<and>
           sorted (map sort_value
             (sort_key sort_value (discovered (json_loads E) fragments))) \<and>
           (\<forall>k. filter (\<lambda>c. sort_value c = k)
                  (sort_key sort_value (discovered (json_loads E) fragments)) =
                filter (\<lambda>c. sort_value c = k) (discovered (json_loads E) fragments))) \<and>
         (convert_try E input_file output_file = Inl e \<longrightarrow>
           returned (convert_draft_info_to_srt E input_file output_file) = (0, []))"
proof (intro conjI impI)
  assume "convert_try E input_file output_file = Inl e"
  then show "returned (convert_draft_info_to_srt E input_file output_file) = (0, [])"
    by (rule convert_fault)
next
  assume ok: "convert_try E input_file output_file = Inr res"
  then show "convert_draft_info_to_srt E input_file output_file = res"
    by (rule convert_of_try)
  have r: "returned res =
      (length (filter (captioned (json_loads E)) fragments),
       concat (map2 spec_block
         [1..<Suc (length (filter (captioned (json_loads E)) fragments))]
         (sort_key sort_value (discovered (json_loads E) fragments))))"
  proof (cases "fragments = []")
    case True
    with convert_try_fragments [OF assms] ok have "res = not_found_outcome"
      by simp
    with True show ?thesis
      by (simp add: not_found_outcome_def discovered_def)
  next
    case False
    with convert_try_fragments [OF assms] ok
    have "convert_fragments E output_file (JArr fragments) = Inr res"
      by simp
    then show ?thesis by (rule convert_fragments_result)
  qed
  from r show "fst (returned res) = length (filter (captioned (json_loads E)) fragments)"
    by simp
  from r show "snd (returned res) =
      concat (map2 spec_block [1..<Suc (fst (returned res))]
        (sort_key sort_value (discovered (json_loads E) fragments)))"
    by simp
  show "sorted (map sort_value (sort_key sort_value (discovered (json_loads E) fragments)))"
    by simp
  show "\<forall>k. filter (\<lambda>c. sort_value c = k)
          (sort_key sort_value (discovered (json_loads E) fragments)) =
        filter (\<lambda>c. sort_value c = k) (discovered (json_loads E) fragments)"
    by (simp add: sort_key_stable)
qed

theorem caption_count_and_order_witness:
  "load_json (sample_env doc_multi) draft_path = Inr doc_multi \<and>
   find_subtitle_fragments doc_multi = JArr multi_fragments \<and>
   length multi_fragments = 4 \<and>
   convert_try (sample_env doc_multi) draft_path srt_path = Inr multi_outcome \<and>
   convert_draft_info_to_srt (sample_env doc_multi) draft_path srt_path = multi_outcome \<and>
   length (filter (captioned sample_loads) multi_fragments) = 3 \<and>
   discovered sample_loads multi_fragments = [cap_late, cap_tie, cap_early] \<and>
   sort_key sort_value (discovered sample_loads multi_fragments) =
     [cap_early, cap_late, cap_tie] \<and>
   snd (returned multi_outcome) = multi_text \<and>
   convert_try (sample_env doc_no_start) draft_path srt_path = Inl KeyError \<and>
   returned (convert_draft_info_to_srt (sample_env doc_no_start) draft_path srt_path) =
     (0, [])"
proof -
  have l: "load_json (sample_env doc_multi) draft_path = Inr doc_multi"
    by (simp add: sample_env_def)
  have j: "json_loads (sample_env doc_multi) = sample_loads"
    by (simp add: sample_env_def)
  have d: "discovered sample_loads multi_fragments = [cap_late, cap_tie, cap_early]"
    by (simp add: discovered_def multi_fragments_def extract_fragment_multi)
  have n: "length multi_fragments = 4"
    by (simp add: multi_fragments_def)
  have r: "returned multi_outcome = (3, multi_text)"
    by (simp add: multi_outcome_def)
  have l': "load_json (sample_env doc_no_start) draft_path = Inr doc_no_start"
    by (simp add: sample_env_def)
  from caption_count_and_order
    [OF l find_samples(6), where output_file = srt_path and res = multi_outcome]
  have c: "convert_draft_info_to_srt (sample_env doc_multi) draft_path srt_path =
      multi_outcome \<and>
    length (filter (captioned sample_loads) multi_fragments) = 3"
    by (simp add: convert_try_multi j r)
  from caption_count_and_order
    [OF l' find_samples(3), where output_file = srt_path and e = KeyError]
  have e: "returned (convert_draft_info_to_srt (sample_env doc_no_start) draft_path
      srt_path) = (0, [])"
    by (simp add: convert_try_no_start)
  have s: "sort_key sort_value (discovered sample_loads multi_fragments) =
      [cap_early, cap_late, cap_tie]"
    unfolding d by (rule sort_multi)
  have t: "snd (returned multi_outcome) = multi_text"
    by (simp add: r)
  from c e l find_samples(6) n convert_try_multi d s t convert_try_no_start
  show ?thesis
    by blast
qed

text \<open>
  The claim as it is written fails for a fragment that has caption text and no
  \<open>start_time\<close>: the lookup raises KeyError, the run ends in the last handler, and the
  count returned is 0, not 1.
\<close>

theorem caption_count_counterexample:
  "find_subtitle_fragments doc_no_start = JArr [JObj frag_no_start] \<and>
   length (filter (captioned sample_loads) [JObj frag_no_start]) = 1 \<and>
   convert_draft_info_to_srt (sample_env doc_no_start) draft_path srt_path = fault_outcome"
  by (simp add: find_samples captioned_no_start convert_draft_info_to_srt_def
      convert_try_no_start fault_outcome_def)

subsection \<open>Fragments without a caption\<close>

text \<open>
  Claim C6, as the code has it. In a fragment list that holds at least one other
  fragment, a fragment record (a mapping) without a caption is merely left out: the
  conversion returns, prints and writes exactly what it does for the document whose
  list is the same without that fragment, so the outcome of the sibling fragments is
  unchanged. A fragment record is without a caption when its cache field is missing,
  when it is empty, when the JSON decode of the cache text fails with JSONDecodeError,
  when the decoded mapping lacks \<open>sentence_list\<close>, and when that key's value is empty.
\<close>

theorem uncaptioned_fragment_excluded:
  "(load_json E input_file = Inr data \<and>
    find_subtitle_fragments data = JArr (xs @ JObj kvs # ys) \<and>
    find_subtitle_fragments data' = JArr (xs @ ys) \<and> xs @ ys \<noteq> [] \<and>
    uncaptioned (json_loads E) kvs \<longrightarrow>
      convert_draft_info_to_srt E input_file output_file =
      convert_draft_info_to_srt (E\<lparr>load_json := \<lambda>path. Inr data'\<rparr>) input_file
        output_file) \<and>
   (map_of kvs key_cache = None \<longrightarrow> uncaptioned loads kvs) \<and>
   (map_of kvs key_cache = Some v \<and> \<not> truthy v \<longrightarrow> uncaptioned loads kvs) \<and>
   (map_of kvs key_cache = Some (JStr s) \<and> loads s = Inl JSONDecodeError \<longrightarrow>
      uncaptioned loads kvs) \<and>
   (map_of kvs key_cache = Some (JStr s) \<and> loads s = Inr (JObj d) \<and>
    map_of d key_sentence_list = None \<longrightarrow>
      uncaptioned loads kvs) \<and>
   (map_of kvs key_cache = Some (JStr s) \<and> loads s = Inr (JObj d) \<and>
    map_of d key_sentence_list = Some sl \<and> \<not> truthy sl \<longrightarrow>
      uncaptioned loads kvs)"
proof -
  have "convert_draft_info_to_srt E input_file output_file =
      convert_draft_info_to_srt (E\<lparr>load_json := \<lambda>path. Inr data'\<rparr>) input_file output_file"
    if l: "load_json E input_file = Inr data"
      and f: "find_subtitle_fragments data = JArr (xs @ JObj kvs # ys)"
      and f': "find_subtitle_fragments data' = JArr (xs @ ys)"
      and n: "xs @ ys \<noteq> []"
      and u: "uncaptioned (json_loads E) kvs"
  proof -
    have "convert_fragments E output_file (JArr (xs @ JObj kvs # ys)) =
        convert_fragments E output_file (JArr (xs @ ys))"
      using collect_subtitles_skip [OF uncaptioned_skipped [OF u], of xs ys "[]"]
      by (simp add: convert_fragments_def)
    moreover have "convert_try E input_file output_file =
        convert_fragments E output_file (JArr (xs @ JObj kvs # ys))"
      using convert_try_fragments [OF l f] by simp
    moreover have
      "convert_try (E\<lparr>load_json := \<lambda>path. Inr data'\<rparr>) input_file output_file =
        convert_fragments E output_file (JArr (xs @ ys))"
      using convert_try_fragments
        [of "E\<lparr>load_json := \<lambda>path. Inr data'\<rparr>" input_file data' "xs @ ys" output_file]
        f' n
      by (auto simp: convert_fragments_env)
    ultimately show ?thesis
      by (simp add: convert_draft_info_to_srt_def)
  qed
  then show ?thesis
    using uncaptioned_cases(1) [where kvs = kvs and loads = loads]
      uncaptioned_cases(2) [where kvs = kvs and v = v and loads = loads]
      uncaptioned_cases(3) [where kvs = kvs and s = s and loads = loads]
      uncaptioned_cases(4) [where kvs = kvs and s = s and loads = loads and d = d]
      uncaptioned_cases(5) [where kvs = kvs and s = s and loads = loads and d = d
        and sl = sl]
    by blast
qed

theorem uncaptioned_fragment_excluded_witness:
  "uncaptioned sample_loads frag_empty_cache \<and>
   find_subtitle_fragments doc_hello_empty = JArr [JObj frag_hello, JObj frag_empty_cache] \<and>
   convert_draft_info_to_srt (sample_env doc_hello_empty) draft_path srt_path =
     hello_outcome \<and>
   sample_loads not_json = Inl JSONDecodeError \<and>
   uncaptioned sample_loads frag_not_json \<and>
   find_subtitle_fragments doc_hello_not_json = JArr [JObj frag_hello, JObj frag_not_json] \<and>
   convert_draft_info_to_srt (sample_env doc_hello_not_json) draft_path srt_path =
     hello_outcome \<and>
   find_subtitle_fragments doc_multi =
     JArr [JObj frag_late, JObj frag_empty_cache, JObj frag_tie, JObj frag_early] \<and>
   find_subtitle_fragments doc_captioned =
     JArr [JObj frag_late, JObj frag_tie, JObj frag_early] \<and>
   convert_draft_info_to_srt (sample_env doc_multi) draft_path srt_path = multi_outcome \<and>
   convert_draft_info_to_srt
     ((sample_env doc_multi)\<lparr>load_json := \<lambda>path. Inr doc_captioned\<rparr>) draft_path
     srt_path = multi_outcome"
proof -
  have u1: "uncaptioned sample_loads frag_empty_cache"
    using uncaptioned_fragment_excluded
      [where kvs = frag_empty_cache and v = "JStr []" and loads = sample_loads]
    by (simp add: frag_empty_cache_def sample_keys)
  have u2: "uncaptioned sample_loads frag_not_json"
    using uncaptioned_fragment_excluded
      [where kvs = frag_not_json and s = not_json and loads = sample_loads]
    by (simp add: frag_not_json_def sample_keys sample_loads_not_json)
  have c1: "convert_draft_info_to_srt (sample_env doc_hello_empty) draft_path srt_path =
      hello_outcome"
    using uncaptioned_fragment_excluded
      [where E = "sample_env doc_hello_empty" and input_file = draft_path
        and data = doc_hello_empty and xs = "[JObj frag_hello]" and kvs = frag_empty_cache
        and ys = "[]" and data' = doc_hello and output_file = srt_path] u1
    by (simp add: find_samples convert_hello_env) (simp add: sample_env_def)
  have c2: "convert_draft_info_to_srt (sample_env doc_hello_not_json) draft_path srt_path =
      hello_outcome"
    using uncaptioned_fragment_excluded
      [where E = "sample_env doc_hello_not_json" and input_file = draft_path
        and data = doc_hello_not_json and xs = "[JObj frag_hello]" and kvs = frag_not_json
        and ys = "[]" and data' = doc_hello and output_file = srt_path] u2
    by (simp add: find_samples convert_hello_env) (simp add: sample_env_def)
  have c3: "convert_draft_info_to_srt (sample_env doc_multi) draft_path srt_path =
      multi_outcome"
    using uncaptioned_fragment_excluded
      [where E = "sample_env doc_multi" and input_file = draft_path
        and data = doc_multi and xs = "[JObj frag_late]" and kvs = frag_empty_cache
        and ys = "[JObj frag_tie, JObj frag_early]" and data' = doc_captioned
        and output_file = srt_path] u1
    by (simp add: find_samples multi_fragments_def captioned_fragments_def
        convert_captioned_env) (simp add: sample_env_def)
  have f: "find_subtitle_fragments doc_multi =
      JArr [JObj frag_late, JObj frag_empty_cache, JObj frag_tie, JObj frag_early]"
    "find_subtitle_fragments doc_captioned =
      JArr [JObj frag_late, JObj frag_tie, JObj frag_early]"
    by (simp_all add: find_samples multi_fragments_def captioned_fragments_def)
  from u1 u2 c1 c2 c3 f find_samples(4,5) sample_loads_not_json
    convert_captioned_env [of doc_multi]
  show ?thesis
    by blast
qed

text \<open>
  The claim as it is written fails for a key error on \<open>start_time\<close>: the fragment
  list of the scenario gives one caption, and with a second fragment that has caption
  text and no \<open>start_time\<close> the whole run ends in the last handler and returns nothing.
\<close>

theorem key_error_aborts_counterexample:
  "convert_draft_info_to_srt (sample_env doc_hello) draft_path srt_path = hello_outcome \<and>
   convert_draft_info_to_srt (sample_env doc_hello_no_start) draft_path srt_path =
     fault_outcome"
  by (simp add: convert_of_try [OF convert_try_hello])
     (simp add: find_samples convert_draft_info_to_srt_def convert_try_def
      convert_fragments_def sample_env_def extract_fragment_hello extract_fragment_no_start
      fault_outcome_def)

subsection \<open>Document-level failures\<close>

lemma convert_load_error:
  "load_json E input_file = Inl e \<Longrightarrow>
     convert_draft_info_to_srt E input_file output_file =
       (if e = FileNotFoundError then file_not_found_outcome input_file
        else if e = JSONDecodeError then malformed_outcome
        else fault_outcome)"
  by (simp add: convert_draft_info_to_srt_def convert_try_def file_not_found_outcome_def
      malformed_outcome_def fault_outcome_def)

lemma convert_not_found:
  "load_json E input_file = Inr data \<Longrightarrow> \<not> truthy (find_subtitle_fragments data) \<Longrightarrow>
     convert_draft_info_to_srt E input_file output_file = not_found_outcome"
  by (simp add: convert_draft_info_to_srt_def convert_try_def not_found_outcome_def)

text \<open>
  Claim C7. When the input cannot be opened or read, when its content is not JSON, and
  when the key occurs nowhere in the document, the conversion returns count 0 and the
  empty text and writes nothing; it prints one diagnostic, a different one for a missing
  key, a missing file, malformed JSON and any other read failure. The function returns
  in each case: no exception leaves it.
\<close>

theorem document_failures:
  "(load_json E input_file = Inl FileNotFoundError \<longrightarrow>
      convert_draft_info_to_srt E input_file output_file =
        file_not_found_outcome input_file) \<and>
   (load_json E input_file = Inl JSONDecodeError \<longrightarrow>
      convert_draft_info_to_srt E input_file output_file = malformed_outcome) \<and>
   (load_json E input_file = Inl e \<and> e \<noteq> FileNotFoundError \<and> e \<noteq> JSONDecodeError \<longrightarrow>
      convert_draft_info_to_srt E input_file output_file = fault_outcome) \<and>
   (load_json E input_file = Inr data \<and> spec_occurrences data = [] \<longrightarrow>
      convert_draft_info_to_srt E input_file output_file = not_found_outcome) \<and>
   returned (file_not_found_outcome input_file) = (0, []) \<and>
   returned malformed_outcome = (0, []) \<and> returned fault_outcome = (0, []) \<and>
   returned not_found_outcome = (0, []) \<and>
   distinct [printed (file_not_found_outcome input_file), printed malformed_outcome,
     printed fault_outcome, printed not_found_outcome]"
proof -
  have "convert_draft_info_to_srt E input_file output_file = not_found_outcome"
    if "load_json E input_file = Inr data" and "spec_occurrences data = []"
    using that convert_not_found [of E input_file data output_file]
    by (simp add: find_first_nonnull(1))
  then show ?thesis
    using convert_load_error [of E input_file FileNotFoundError output_file]
      convert_load_error [of E input_file JSONDecodeError output_file]
      convert_load_error [of E input_file e output_file]
    by (simp add: file_not_found_outcome_def malformed_outcome_def fault_outcome_def
        not_found_outcome_def)
qed

theorem document_failures_witness:
  "convert_draft_info_to_srt (sample_env doc_hello) (ascii ''missing.json'') srt_path =
     file_not_found_outcome (ascii ''missing.json'') \<and>
   convert_draft_info_to_srt
     ((sample_env doc_hello)\<lparr>load_json := \<lambda>path. Inl JSONDecodeError\<rparr>) draft_path srt_path =
     malformed_outcome \<and>
   convert_draft_info_to_srt
     ((sample_env doc_hello)\<lparr>load_json := \<lambda>path. Inl OSError\<rparr>) draft_path srt_path =
     fault_outcome \<and>
   convert_draft_info_to_srt (sample_env (JArr [JInt 1])) draft_path srt_path =
     not_found_outcome"
  using document_failures [where E = "sample_env doc_hello"
      and input_file = "ascii ''missing.json''" and output_file = srt_path]
    document_failures [where E = "(sample_env doc_hello)\<lparr>load_json := \<lambda>path. Inl JSONDecodeError\<rparr>"
      and input_file = draft_path and output_file = srt_path]
    document_failures [where E = "(sample_env doc_hello)\<lparr>load_json := \<lambda>path. Inl OSError\<rparr>"
      and input_file = draft_path and output_file = srt_path and e = OSError]
    document_failures [where E = "sample_env (JArr [JInt 1])" and input_file = draft_path
      and output_file = srt_path and data = "JArr [JInt 1]"]
  by (simp add: sample_env_def draft_path_def)

subsection \<open>A key bound to a falsy value\<close>

text \<open>
  Claim C10. When the value the locator returns is falsy (an empty sequence, \<open>null\<close>,
  0, the empty string), the conversion prints the not-found diagnostic and returns
  count 0 and the empty text, as it does when the key is absent; so it does for a
  document that is a mapping binding the key to such a value.
\<close>

theorem falsy_binding_not_found:
  "(load_json E input_file = Inr data \<and> \<not> truthy (find_subtitle_fragments data) \<longrightarrow>
      convert_draft_info_to_srt E input_file output_file = not_found_outcome) \<and>
   (load_json E input_file = Inr (JObj kvs) \<and> map_of kvs key_fragments = Some v \<and>
    \<not> truthy v \<longrightarrow>
      convert_draft_info_to_srt E input_file output_file = not_found_outcome) \<and>
   (load_json E input_file = Inr data \<and> spec_occurrences data = [] \<longrightarrow>
      convert_draft_info_to_srt E input_file output_file = not_found_outcome)"
  using convert_not_found [of E input_file data output_file]
    convert_not_found [of E input_file "JObj kvs" output_file]
  by (auto simp: find_first_nonnull(1))

theorem falsy_binding_not_found_witness:
  "convert_draft_info_to_srt (sample_env (JObj [(key_fragments, JArr [])])) draft_path
     srt_path = not_found_outcome \<and>
   convert_draft_info_to_srt (sample_env (JObj [(key_fragments, JInt 0)])) draft_path
     srt_path = not_found_outcome \<and>
   convert_draft_info_to_srt (sample_env (JObj [(key_fragments, JStr [])])) draft_path
     srt_path = not_found_outcome \<and>
   convert_draft_info_to_srt (sample_env (JObj [(key_fragments, JNull)])) draft_path
     srt_path = not_found_outcome \<and>
   convert_draft_info_to_srt (sample_env (JObj [])) draft_path srt_path = not_found_outcome"
proof -
  note F = falsy_binding_not_found [where input_file = draft_path and output_file = srt_path]
  have "convert_draft_info_to_srt (sample_env (JObj [(key_fragments, v)])) draft_path
     srt_path = not_found_outcome" if "\<not> truthy v" for v
    using that F [where E = "sample_env (JObj [(key_fragments, v)])"
        and kvs = "[(key_fragments, v)]" and v = v]
    by (simp add: sample_env_def)
  from this [of "JArr []"] this [of "JInt 0"] this [of "JStr []"] this [of JNull]
    F [where E = "sample_env (JObj [])" and data = "JObj []"]
  show ?thesis
    by (simp add: sample_env_def)
qed

end
